theory Spec2Isabelle
  imports Complex_Main
begin

section \<open>Strings and JSON values\<close>

text \<open>
  A JavaScript string is modelled as a \<^typ>\<open>string\<close> whose characters are the code units
  below 256 (the Latin-1 range). On that range \<open>trim\<close> strips the code units 9 to 13, 32 and 160,
  and \<open>toLowerCase\<close> moves \<open>A\<close> to \<open>Z\<close> and the accented capitals 192 to 222
  (except 215, the multiplication sign) up by 32.
\<close>

definition isSpace :: "char \<Rightarrow> bool" where
  "isSpace c = (let n = (of_char c :: nat) in (9 \<le> n \<and> n \<le> 13) \<or> n = 32 \<or> n = 160)"

definition trim :: "string \<Rightarrow> string" where
  "trim s = rev (dropWhile isSpace (rev (dropWhile isSpace s)))"

definition toLowerChar :: "char \<Rightarrow> char" where
  "toLowerChar c =
     (let n = (of_char c :: nat)
      in if (65 \<le> n \<and> n \<le> 90) \<or> (192 \<le> n \<and> n \<le> 222 \<and> n \<noteq> 215)
         then char_of (n + 32) else c)"

definition toLowerCase :: "string \<Rightarrow> string" where
  "toLowerCase s = map toLowerChar s"

text \<open>
  The value \<open>req.json()\<close> yields. An object is the list of its own properties, each key once;
  a number is the rational that the parsed double holds, and \<open>JInf\<close> is \<open>Infinity\<close> or
  \<open>-Infinity\<close>, which a JSON number beyond the range of doubles parses to.
\<close>

datatype json =
    JNull
  | JBool bool
  | JNum rat
  | JInf
  | JStr string
  | JArr "json list"
  | JObj "(string \<times> json) list"

text \<open>
  Optional property access \<open>v?.k\<close>: \<open>None\<close> is \<open>undefined\<close>. Only an object has
  the properties the handler asks for; \<open>null\<close>, \<open>undefined\<close>, a string, a number, a
  boolean and an array all give \<open>undefined\<close>.
\<close>

fun getProp :: "json option \<Rightarrow> string \<Rightarrow> json option" where
  "getProp (Some (JObj kvs)) k = map_of kvs k"
| "getProp _ k = None"

section \<open>Enumerations\<close>

datatype CallStatus = PENDING | RUNNING | COMPLETED | FAILED | CANCELED

datatype ContactStatus = Contact_PENDING | Contact_NO_ANSWER | Contact_VOICEMAIL | Contact_COMPLETED

section \<open>Normalizers of the callback route\<close>

fun normalizeStatus :: "json option \<Rightarrow> CallStatus option" where
  "normalizeStatus (Some (JStr status)) =
     (let s = toLowerCase status
      in if s = ''pending'' then Some PENDING
         else if s = ''running'' then Some RUNNING
         else if s = ''completed'' \<or> s = ''success'' then Some COMPLETED
         else if s = ''failed'' \<or> s = ''error'' then Some FAILED
         else if s = ''canceled'' \<or> s = ''cancelled'' then Some CANCELED
         else None)"
| "normalizeStatus _ = None"

fun normalizeContactStatus :: "json option \<Rightarrow> ContactStatus option" where
  "normalizeContactStatus (Some (JStr status)) =
     (let s = toLowerCase (trim status)
      in if s = ''pending'' then Some Contact_PENDING
         else if s = ''completed'' \<or> s = ''success'' then Some Contact_COMPLETED
         else if s = ''voicemail'' then Some Contact_VOICEMAIL
         else if s = ''no_answer'' \<or> s = ''no answer'' then Some Contact_NO_ANSWER
         else None)"
| "normalizeContactStatus _ = None"

fun asString :: "json option \<Rightarrow> string option" where
  "asString (Some (JStr v)) = (if trim v \<noteq> [] then Some v else None)"
| "asString _ = None"

definition isDigit :: "char \<Rightarrow> bool" where
  "isDigit c = (let n = (of_char c :: nat) in 48 \<le> n \<and> n \<le> 57)"

text \<open>
  What \<open>asInt\<close> can return: an integer-valued double, or \<open>Infinity\<close> for a string of digits
  beyond the range of doubles.
\<close>

datatype number = Finite int | Infinity

text \<open>The decimal value of a string of digits.\<close>

definition digitsToInt :: "string \<Rightarrow> int" where
  "digitsToInt s = foldl (\<lambda>a c. 10 * a + (int (of_char c) - 48)) 0 s"

function bitLength :: "int \<Rightarrow> nat" where
  "bitLength n = (if n \<le> 0 then 0 else Suc (bitLength (n div 2)))"
  by pat_completeness auto
termination
  by (relation "measure nat") auto

text \<open>
  \<open>Number(s)\<close> on a string of decimal digits is the double nearest to its value, ties to the
  even mantissa (as the engine of Node computes it): exact below \<open>2^53\<close>, a multiple of
  \<open>2^e\<close> with a mantissa of 53 bits above, \<open>Infinity\<close> from \<open>2^1024 - 2^970\<close> on.
\<close>

definition toDouble :: "int \<Rightarrow> number" where
  "toDouble n =
     (if n < 2 ^ 53 then Finite n
      else let e = bitLength n - 53;
               q = n div 2 ^ e;
               r = n mod 2 ^ e;
               m = (if 2 ^ e < 2 * r \<or> (2 * r = 2 ^ e \<and> odd q) then q + 1 else q)
           in if 2 ^ 1024 \<le> m * 2 ^ e then Infinity else Finite (m * 2 ^ e))"

fun asInt :: "json option \<Rightarrow> number option" where
  "asInt (Some (JNum v)) = (if of_int \<lfloor>v\<rfloor> = v then Some (Finite \<lfloor>v\<rfloor>) else None)"
| "asInt (Some (JStr v)) =
     (if trim v \<noteq> [] \<and> list_all isDigit (trim v)
      then Some (toDouble (digitsToInt (trim v))) else None)"
| "asInt _ = None"

fun asBoolean :: "json option \<Rightarrow> bool option" where
  "asBoolean (Some (JBool v)) = Some v"
| "asBoolean (Some (JNum v)) = Some (v \<noteq> 0)"
| "asBoolean (Some JInf) = Some True"
| "asBoolean (Some (JStr v)) =
     (let s = toLowerCase (trim v)
      in if s \<in> set [''true'', ''yes'', ''y'', ''1''] then Some True
         else if s \<in> set [''false'', ''no'', ''n'', ''0''] then Some False
         else None)"
| "asBoolean _ = None"

section \<open>Loose boolean of the import route\<close>

text \<open>
  \<open>parseBooleanLoose(v)\<close> takes \<open>string | undefined | null\<close>; \<open>None\<close> stands for
  both \<open>undefined\<close> and \<open>null\<close>, and \<open>String(v || "")\<close> turns them into the empty string.
\<close>

definition parseBooleanLoose :: "string option \<Rightarrow> bool option" where
  "parseBooleanLoose v =
     (let s = toLowerCase (trim (case v of None \<Rightarrow> [] | Some x \<Rightarrow> x))
      in if s = [] \<or> s = ''-'' then None
         else if s \<in> set [''true'', ''yes'', ''y'', ''1''] then Some True
         else if s \<in> set [''false'', ''no'', ''n'', ''0''] then Some False
         else if s = ''t'' then Some True
         else if s = ''f'' then Some False
         else None)"

section \<open>JavaScript truthiness, \<open>||\<close> and \<open>??\<close>\<close>

definition truthyStr :: "string option \<Rightarrow> bool" where
  "truthyStr v = (case v of None \<Rightarrow> False | Some s \<Rightarrow> s \<noteq> [])"

definition truthyInt :: "number option \<Rightarrow> bool" where
  "truthyInt v = (case v of None \<Rightarrow> False | Some Infinity \<Rightarrow> True | Some (Finite n) \<Rightarrow> n \<noteq> 0)"

definition orStr :: "string option \<Rightarrow> string option \<Rightarrow> string option" where
  "orStr a b = (if truthyStr a then a else b)"

definition orInt :: "number option \<Rightarrow> number option \<Rightarrow> number option" where
  "orInt a b = (if truthyInt a then a else b)"

text \<open>An enum member is a non-empty string, hence truthy: \<open>a || b\<close> is \<open>a\<close> unless \<open>a\<close> is null.\<close>

definition orEnum :: "'a option \<Rightarrow> 'a option \<Rightarrow> 'a option" where
  "orEnum a b = (case a of None \<Rightarrow> b | Some x \<Rightarrow> Some x)"

definition nullish :: "bool option \<Rightarrow> bool option \<Rightarrow> bool option" where
  "nullish a b = (case a of None \<Rightarrow> b | Some x \<Rightarrow> Some x)"

section \<open>Extraction of the callback payload\<close>

definition riderCallId_of :: "json \<Rightarrow> string option" where
  "riderCallId_of b =
     orStr (asString (getProp (getProp (getProp (Some b) ''context'') ''source'') ''rider_call_id''))
    (orStr (asString (getProp (getProp (getProp (Some b) ''context'') ''source'') ''call_id''))
    (orStr (asString (getProp (Some b) ''call_id''))
    (orStr (asString (getProp (Some b) ''callId''))
           (asString (getProp (getProp (Some b) ''metadata'') ''callId'')))))"

definition runId_of :: "json \<Rightarrow> string option" where
  "runId_of b =
     orStr (asString (getProp (Some b) ''run_id''))
    (orStr (asString (getProp (Some b) ''runId''))
           (asString (getProp (Some b) ''id'')))"

definition externalId_of :: "json \<Rightarrow> number option" where
  "externalId_of b =
     orInt (asInt (getProp (Some b) ''external_id''))
    (orInt (asInt (getProp (Some b) ''externalId''))
    (orInt (asInt (getProp (getProp (Some b) ''context'') ''external_id''))
    (orInt (asInt (getProp (getProp (Some b) ''context'') ''externalId''))
           (asInt (getProp (Some b) ''context'')))))"

definition status_of :: "json \<Rightarrow> CallStatus option" where
  "status_of b = normalizeStatus (getProp (Some b) ''status'')"

definition contactStatus_of :: "json \<Rightarrow> ContactStatus option" where
  "contactStatus_of b =
     orEnum (normalizeContactStatus (getProp (Some b) ''contact_status''))
    (orEnum (normalizeContactStatus (getProp (Some b) ''call_status''))
    (orEnum (normalizeContactStatus (getProp (getProp (Some b) ''result'') ''call_status''))
            (normalizeContactStatus (getProp (getProp (Some b) ''result'') ''contact_status''))))"

definition summary_of :: "json \<Rightarrow> string option" where
  "summary_of b =
     orStr (asString (getProp (getProp (Some b) ''result'') ''summary''))
    (orStr (asString (getProp (Some b) ''summary''))
    (orStr (asString (getProp (getProp (Some b) ''outputs'') ''summary''))
           (asString (getProp (getProp (Some b) ''extracted'') ''summary''))))"

definition transcript_of :: "json \<Rightarrow> string option" where
  "transcript_of b =
     orStr (asString (getProp (getProp (Some b) ''result'') ''transcript''))
    (orStr (asString (getProp (Some b) ''transcript''))
    (orStr (asString (getProp (getProp (Some b) ''outputs'') ''transcript''))
           (asString (getProp (getProp (Some b) ''extracted'') ''transcript''))))"

definition urgentFlag_of :: "json \<Rightarrow> bool option" where
  "urgentFlag_of b =
     nullish (asBoolean (getProp (Some b) ''urgent_flag''))
    (nullish (asBoolean (getProp (Some b) ''urgent''))
    (nullish (asBoolean (getProp (getProp (Some b) ''result'') ''urgent_flag''))
             (asBoolean (getProp (getProp (Some b) ''result'') ''urgent''))))"

definition legalIssueFlag_of :: "json \<Rightarrow> bool option" where
  "legalIssueFlag_of b =
     nullish (asBoolean (getProp (Some b) ''legal_issue_flag''))
    (nullish (asBoolean (getProp (Some b) ''legal_issue''))
    (nullish (asBoolean (getProp (getProp (Some b) ''result'') ''legal_issue_flag''))
             (asBoolean (getProp (getProp (Some b) ''result'') ''legal_issue''))))"

definition humanRequested_of :: "json \<Rightarrow> bool option" where
  "humanRequested_of b =
     nullish (asBoolean (getProp (Some b) ''human_requested''))
    (nullish (asBoolean (getProp (Some b) ''humanRequested''))
    (nullish (asBoolean (getProp (getProp (Some b) ''result'') ''human_requested''))
             (asBoolean (getProp (getProp (Some b) ''result'') ''humanRequested''))))"

section \<open>The entity store\<close>

text \<open>
  Timestamps are milliseconds since the epoch. The records hold the columns of the tables
  \<open>riders\<close> and \<open>rider_calls\<close> that the callback route reads or writes; the other columns
  (sign-up date, flow type, documents, city, error message, sentiment, attempt, initiating user)
  are never touched by it and are left out.
\<close>

type_synonym timestamp = nat

record Rider =
  rider_id :: string
  externalId :: "int option"
  phoneNumber :: string
  driverName :: string
  lastContactAt :: "timestamp option"
  lastContactStatus :: "ContactStatus option"
  rider_urgentFlag :: bool
  rider_legalIssueFlag :: bool
  rider_humanRequested :: bool
  rider_updatedAt :: timestamp

record RiderCall =
  call_id :: string
  runId :: "string option"
  status :: CallStatus
  contactStatus :: "ContactStatus option"
  contactedAt :: "timestamp option"
  transcript :: "string option"
  summary :: "string option"
  urgentFlag :: bool
  legalIssueFlag :: bool
  humanRequested :: bool
  metadata :: json
  createdAt :: timestamp
  updatedAt :: timestamp
  completedAt :: "timestamp option"
  riderId :: string

record Store =
  riders :: "Rider list"
  calls :: "RiderCall list"

text \<open>
  What makes a store operation throw inside the transaction: a record to update that is not
  there, a duplicate under a unique index, a missing parent, and an argument that the
  database does not take.
\<close>

datatype error =
    RecordNotFound
  | UniqueConstraintViolation
  | ForeignKeyViolation
  | InvalidArgument

text \<open>
  The arguments the database does not take: a text with the character U+0000, which
  neither a \<open>TEXT\<close> column, a text parameter of a query nor \<open>JSONB\<close> holds, and a number
  outside the signed 32-bit range of the \<open>INTEGER\<close> column \<open>external_id\<close>.
\<close>

definition storableText :: "string \<Rightarrow> bool" where
  "storableText v = (CHR 0x00 \<notin> set v)"

definition storableOpt :: "string option \<Rightarrow> bool" where
  "storableOpt v = (case v of None \<Rightarrow> True | Some x \<Rightarrow> storableText x)"

fun storableJson :: "json \<Rightarrow> bool" where
  "storableJson (JStr v) = storableText v"
| "storableJson (JArr xs) = (\<forall>x \<in> set xs. storableJson x)"
| "storableJson (JObj kvs) = (\<forall>p \<in> set kvs. storableText (fst p) \<and> storableJson (snd p))"
| "storableJson _ = True"

definition inInt4 :: "int \<Rightarrow> bool" where
  "inInt4 n = (- (2 ^ 31) \<le> n \<and> n < 2 ^ 31)"

text \<open>
  The rows a lookup finds. \<open>findUnique\<close> of the database client, which can throw, follows
  below.
\<close>

definition findCallById :: "Store \<Rightarrow> string \<Rightarrow> RiderCall option" where
  "findCallById s i = find (\<lambda>c. call_id c = i) (calls s)"

definition findCallByRunId :: "Store \<Rightarrow> string \<Rightarrow> RiderCall option" where
  "findCallByRunId s r = find (\<lambda>c. runId c = Some r) (calls s)"

definition findRiderById :: "Store \<Rightarrow> string \<Rightarrow> Rider option" where
  "findRiderById s i = find (\<lambda>r. rider_id r = i) (riders s)"

definition findRiderByExternalId :: "Store \<Rightarrow> int \<Rightarrow> Rider option" where
  "findRiderByExternalId s n = find (\<lambda>r. externalId r = Some n) (riders s)"

text \<open>\<open>rider.findUnique({ where: { externalId } })\<close>.\<close>

definition rider_findUnique :: "Store \<Rightarrow> number \<Rightarrow> error + Rider option" where
  "rider_findUnique s v =
     (case v of
        Infinity \<Rightarrow> Inl InvalidArgument
      | Finite n \<Rightarrow> if inInt4 n then Inr (findRiderByExternalId s n) else Inl InvalidArgument)"

text \<open>
  \<open>findFirst\<close> with \<open>orderBy: { createdAt: "desc" }\<close>: the row created last among those
  that pass the filter. Among rows created at the same instant the database may return any;
  the model returns the one stored first.
\<close>

fun newest :: "RiderCall list \<Rightarrow> RiderCall option" where
  "newest [] = None"
| "newest (c # cs) =
     (case newest cs of
        None \<Rightarrow> Some c
      | Some d \<Rightarrow> if createdAt c < createdAt d then Some d else Some c)"

definition findFirstCall :: "Store \<Rightarrow> (RiderCall \<Rightarrow> bool) \<Rightarrow> RiderCall option" where
  "findFirstCall s P = newest (filter P (calls s))"

text \<open>
  \<open>riderCall.create\<close>: the primary key and the unique index on \<open>run_id\<close> reject a duplicate,
  the foreign key rejects a call without its rider.
\<close>

definition riderCall_create :: "Store \<Rightarrow> RiderCall \<Rightarrow> error + (RiderCall \<times> Store)" where
  "riderCall_create s c =
     (if \<not> (storableOpt (runId c) \<and> storableOpt (summary c) \<and> storableOpt (transcript c) \<and>
             storableJson (metadata c))
        then Inl InvalidArgument
      else if \<exists>d \<in> set (calls s). call_id d = call_id c then Inl UniqueConstraintViolation
      else if runId c \<noteq> None \<and> (\<exists>d \<in> set (calls s). runId d = runId c)
        then Inl UniqueConstraintViolation
      else if findRiderById s (riderId c) = None then Inl ForeignKeyViolation
      else Inr (c, s\<lparr>calls := calls s @ [c]\<rparr>))"

text \<open>
  The \<open>data\<close> object of \<open>riderCall.update\<close>: \<open>None\<close> is a key that the conditional
  spread left out, so the column keeps its value.
\<close>

record CallData =
  data_runId :: "string option"
  data_status :: "CallStatus option"
  data_completedAt :: "timestamp option"
  data_contactStatus :: "ContactStatus option"
  data_contactedAt :: "timestamp option"
  data_summary :: "string option"
  data_transcript :: "string option"
  data_urgentFlag :: "bool option"
  data_legalIssueFlag :: "bool option"
  data_humanRequested :: "bool option"
  data_metadata :: "json option"

definition keep :: "'a option \<Rightarrow> 'a \<Rightarrow> 'a" where
  "keep new old = (case new of None \<Rightarrow> old | Some v \<Rightarrow> v)"

definition keepOpt :: "'a option \<Rightarrow> 'a option \<Rightarrow> 'a option" where
  "keepOpt new old = (case new of None \<Rightarrow> old | Some v \<Rightarrow> Some v)"

text \<open>
  Modelled from the spec: the Prisma schema, which says how \<open>updated_at\<close> is maintained, is not
  among the sources (the migration declares the column without a default). By the spec
  updated-at is bumped on every mutation; \<open>applyCallData\<close> and \<open>applyRiderData\<close> stamp it
  with the time of the update.
\<close>

definition applyCallData :: "timestamp \<Rightarrow> CallData \<Rightarrow> RiderCall \<Rightarrow> RiderCall" where
  "applyCallData t d c =
     c\<lparr> runId := keepOpt (data_runId d) (runId c),
        status := keep (data_status d) (status c),
        completedAt := keepOpt (data_completedAt d) (completedAt c),
        contactStatus := keepOpt (data_contactStatus d) (contactStatus c),
        contactedAt := keepOpt (data_contactedAt d) (contactedAt c),
        summary := keepOpt (data_summary d) (summary c),
        transcript := keepOpt (data_transcript d) (transcript c),
        urgentFlag := keep (data_urgentFlag d) (urgentFlag c),
        legalIssueFlag := keep (data_legalIssueFlag d) (legalIssueFlag c),
        humanRequested := keep (data_humanRequested d) (humanRequested c),
        metadata := keep (data_metadata d) (metadata c),
        updatedAt := t \<rparr>"

definition riderCall_update ::
  "timestamp \<Rightarrow> Store \<Rightarrow> string \<Rightarrow> CallData \<Rightarrow> error + (RiderCall \<times> Store)" where
  "riderCall_update t s i d =
     (if \<not> (storableOpt (data_runId d) \<and> storableOpt (data_summary d) \<and>
             storableOpt (data_transcript d) \<and>
             (case data_metadata d of None \<Rightarrow> True | Some m \<Rightarrow> storableJson m))
        then Inl InvalidArgument
      else case findCallById s i of
        None \<Rightarrow> Inl RecordNotFound
      | Some c \<Rightarrow>
          if data_runId d \<noteq> None \<and>
             (\<exists>e \<in> set (calls s). call_id e \<noteq> i \<and> runId e = data_runId d)
          then Inl UniqueConstraintViolation
          else Inr (applyCallData t d c,
                    s\<lparr>calls := map (\<lambda>e. if call_id e = i then applyCallData t d e else e) (calls s)\<rparr>))"

record RiderData =
  data_lastContactAt :: "timestamp option"
  data_lastContactStatus :: "ContactStatus option"
  data_rider_urgentFlag :: "bool option"
  data_rider_legalIssueFlag :: "bool option"
  data_rider_humanRequested :: "bool option"

definition applyRiderData :: "timestamp \<Rightarrow> RiderData \<Rightarrow> Rider \<Rightarrow> Rider" where
  "applyRiderData t d r =
     r\<lparr> lastContactAt := keepOpt (data_lastContactAt d) (lastContactAt r),
        lastContactStatus := keepOpt (data_lastContactStatus d) (lastContactStatus r),
        rider_urgentFlag := keep (data_rider_urgentFlag d) (rider_urgentFlag r),
        rider_legalIssueFlag := keep (data_rider_legalIssueFlag d) (rider_legalIssueFlag r),
        rider_humanRequested := keep (data_rider_humanRequested d) (rider_humanRequested r),
        rider_updatedAt := t \<rparr>"

definition rider_update ::
  "timestamp \<Rightarrow> Store \<Rightarrow> string \<Rightarrow> RiderData \<Rightarrow> error + (Rider \<times> Store)" where
  "rider_update t s i d =
     (case findRiderById s i of
        None \<Rightarrow> Inl RecordNotFound
      | Some r \<Rightarrow>
          Inr (applyRiderData t d r,
               s\<lparr>riders := map (\<lambda>e. if rider_id e = i then applyRiderData t d e else e) (riders s)\<rparr>))"

section \<open>Structured metadata\<close>

fun truthy :: "json \<Rightarrow> bool" where
  "truthy JNull = False"
| "truthy (JBool v) = v"
| "truthy (JNum v) = (v \<noteq> 0)"
| "truthy JInf = True"
| "truthy (JStr v) = (v \<noteq> [])"
| "truthy (JArr v) = True"
| "truthy (JObj v) = True"

text \<open>\<open>typeof v === "object"\<close> holds of \<open>null\<close>, arrays and objects, not of \<open>undefined\<close>.\<close>

fun typeofObject :: "json option \<Rightarrow> bool" where
  "typeofObject (Some JNull) = True"
| "typeofObject (Some (JArr v)) = True"
| "typeofObject (Some (JObj v)) = True"
| "typeofObject _ = False"

function natToString :: "nat \<Rightarrow> string" where
  "natToString n =
     (if n < 10 then [char_of (48 + n)]
      else natToString (n div 10) @ [char_of (48 + n mod 10)])"
  by pat_completeness auto
termination
  by (relation "measure (\<lambda>n. n)") auto

definition indexed :: "json list \<Rightarrow> (string \<times> json) list" where
  "indexed xs = zip (map natToString [0..<length xs]) xs"

text \<open>
  Object spread \<open>{...v}\<close> copies the own enumerable properties: those of an object, the
  elements of an array and the characters of a string under their indices, nothing otherwise.
\<close>

fun spread :: "json option \<Rightarrow> (string \<times> json) list" where
  "spread (Some (JObj kvs)) = kvs"
| "spread (Some (JArr xs)) = indexed xs"
| "spread (Some (JStr v)) = indexed (map (\<lambda>c. JStr [c]) v)"
| "spread _ = []"

text \<open>
  A property written in an object literal replaces the one spread before it, in place. (The
  model keeps the properties in the order of insertion; JavaScript lists keys that are array
  indices first.)
\<close>

fun setKey :: "string \<Rightarrow> json \<Rightarrow> (string \<times> json) list \<Rightarrow> (string \<times> json) list" where
  "setKey k v [] = [(k, v)]"
| "setKey k v (p # ps) = (if fst p = k then (k, v) # ps else p # setKey k v ps)"

definition setKeyIf :: "string \<Rightarrow> json option \<Rightarrow> (string \<times> json) list \<Rightarrow> (string \<times> json) list" where
  "setKeyIf k v ps = (case v of None \<Rightarrow> ps | Some x \<Rightarrow> setKey k x ps)"

fun contactStatusName :: "ContactStatus \<Rightarrow> string" where
  "contactStatusName Contact_PENDING = ''PENDING''"
| "contactStatusName Contact_NO_ANSWER = ''NO_ANSWER''"
| "contactStatusName Contact_VOICEMAIL = ''VOICEMAIL''"
| "contactStatusName Contact_COMPLETED = ''COMPLETED''"

definition ifTruthy :: "string option \<Rightarrow> string option" where
  "ifTruthy v = (if truthyStr v then v else None)"

definition jsonOfStr :: "string option \<Rightarrow> json" where
  "jsonOfStr v = (case v of None \<Rightarrow> JNull | Some x \<Rightarrow> JStr x)"

section \<open>The callback handler\<close>

text \<open>
  What the handler reads from its surroundings: the configured secret, the clock
  (\<open>new Date()\<close> and its \<open>toISOString()\<close>), and the primary key the database gives to a
  row created by this request.
\<close>

record Env =
  callbackSecret :: "string option"
  now :: timestamp
  nowIso :: string
  newId :: string

record Request =
  happyrobotSecretHeader :: "string option"
  callbackSecretHeader :: "string option"
  body :: "json option"

datatype Response =
    Unauthorized
  | InvalidJsonPayload
  | MissingCorrelationId
  | CallNotFound
  | Ok
  | InternalServerError

definition mergedMetadata :: "Env \<Rightarrow> json \<Rightarrow> RiderCall \<Rightarrow> json" where
  "mergedMetadata env b existing =
     (let existingMetadata = (if truthy (metadata existing) then metadata existing else JObj []);
          old = getProp (Some existingMetadata) ''workflowResult'';
          w0 = (if typeofObject old then spread old else []);
          w1 = setKeyIf ''summary'' (map_option JStr (ifTruthy (summary_of b))) w0;
          w2 = setKeyIf ''transcript'' (map_option JStr (ifTruthy (transcript_of b))) w1;
          w3 = setKeyIf ''contactStatus''
                 (map_option (\<lambda>c. JStr (contactStatusName c)) (contactStatus_of b)) w2;
          w4 = setKeyIf ''urgentFlag'' (map_option JBool (urgentFlag_of b)) w3;
          w5 = setKeyIf ''legalIssueFlag'' (map_option JBool (legalIssueFlag_of b)) w4;
          w6 = setKeyIf ''humanRequested'' (map_option JBool (humanRequested_of b)) w5;
          workflowResult = setKey ''lastCallbackAt'' (JStr (nowIso env)) w6;
          happyrobotCallback =
            [(''receivedAt'', JStr (nowIso env)),
             (''runId'', jsonOfStr (orStr (runId_of b) (runId existing)))]
      in JObj (setKey ''happyrobotCallback'' (JObj happyrobotCallback)
                (setKey ''workflowResult'' (JObj workflowResult)
                  (spread (Some existingMetadata)))))"

datatype whereUnique = WhereId string | WhereRunId string

definition whereOf :: "json \<Rightarrow> whereUnique option" where
  "whereOf b =
     (if truthyStr (riderCallId_of b) then map_option WhereId (riderCallId_of b)
      else if truthyStr (runId_of b) then map_option WhereRunId (runId_of b)
      else None)"

text \<open>
  \<open>riderCall.findUnique({ where })\<close>, not called when \<open>where\<close> has no key (line 157).
\<close>

fun findUniqueCall :: "Store \<Rightarrow> whereUnique option \<Rightarrow> error + RiderCall option" where
  "findUniqueCall s None = Inr None"
| "findUniqueCall s (Some (WhereId i)) =
     (if storableText i then Inr (findCallById s i) else Inl InvalidArgument)"
| "findUniqueCall s (Some (WhereRunId r)) =
     (if storableText r then Inr (findCallByRunId s r) else Inl InvalidArgument)"

fun jsonOfNumber :: "number \<Rightarrow> json" where
  "jsonOfNumber (Finite n) = JNum (of_int n)"
| "jsonOfNumber Infinity = JNull"

definition openCall :: "string \<Rightarrow> RiderCall \<Rightarrow> bool" where
  "openCall rid c =
     (riderId c = rid \<and>
      (status c = PENDING \<or> status c = RUNNING \<or>
       contactStatus c = None \<or> contactStatus c = Some Contact_PENDING))"

text \<open>
  The row of \<open>tx.riderCall.create\<close> (lines 188 to 205). Created-at is the database default,
  the time of the insert, taken to be the handler's now; completed-at has no default.
\<close>

definition newCall :: "Env \<Rightarrow> json \<Rightarrow> Rider \<Rightarrow> number \<Rightarrow> RiderCall" where
  "newCall env b rider v =
     \<lparr> call_id = newId env,
       runId = ifTruthy (runId_of b),
       status = (case status_of b of None \<Rightarrow> COMPLETED | Some st \<Rightarrow> st),
       contactStatus = Some (case contactStatus_of b of None \<Rightarrow> Contact_COMPLETED | Some c \<Rightarrow> c),
       contactedAt = Some (now env),
       transcript = ifTruthy (transcript_of b),
       summary = ifTruthy (summary_of b),
       urgentFlag = (case urgentFlag_of b of None \<Rightarrow> False | Some v \<Rightarrow> v),
       legalIssueFlag = (case legalIssueFlag_of b of None \<Rightarrow> False | Some v \<Rightarrow> v),
       humanRequested = (case humanRequested_of b of None \<Rightarrow> False | Some v \<Rightarrow> v),
       metadata = JObj [(''source'', JStr ''callback_external_id''), (''externalId'', jsonOfNumber v)],
       createdAt = now env,
       updatedAt = now env,
       completedAt = None,
       riderId = rider_id rider \<rparr>"

text \<open>Lines 162 to 207: correlation through \<open>Rider.externalId\<close>.\<close>

definition resolveByExternalId ::
  "Env \<Rightarrow> json \<Rightarrow> Store \<Rightarrow> number \<Rightarrow> error + (RiderCall option \<times> Store)" where
  "resolveByExternalId env b s v =
     (case rider_findUnique s v of
        Inl e \<Rightarrow> Inl e
      | Inr None \<Rightarrow> Inr (None, s)
      | Inr (Some rider) \<Rightarrow>
          (case orEnum (findFirstCall s (openCall (rider_id rider)))
                       (findFirstCall s (\<lambda>c. riderId c = rider_id rider)) of
             Some c \<Rightarrow> Inr (Some c, s)
           | None \<Rightarrow>
               (case riderCall_create s (newCall env b rider v) of
                  Inl e \<Rightarrow> Inl e
                | Inr (c, s') \<Rightarrow> Inr (Some c, s'))))"

text \<open>Lines 153 to 209: the call the payload refers to, if any.\<close>

definition resolveCall :: "Env \<Rightarrow> json \<Rightarrow> Store \<Rightarrow> error + (RiderCall option \<times> Store)" where
  "resolveCall env b s =
     (case findUniqueCall s (whereOf b) of
        Inl e \<Rightarrow> Inl e
      | Inr existing \<Rightarrow>
          (case externalId_of b of
             None \<Rightarrow> Inr (existing, s)
           | Some v \<Rightarrow>
               if existing = None \<and> truthyInt (Some v) then resolveByExternalId env b s v
               else Inr (existing, s)))"

definition terminalStatus :: "CallStatus option \<Rightarrow> bool" where
  "terminalStatus st = (st = Some COMPLETED \<or> st = Some FAILED \<or> st = Some CANCELED)"

definition callData :: "Env \<Rightarrow> json \<Rightarrow> RiderCall \<Rightarrow> CallData" where
  "callData env b existing =
     \<lparr> data_runId = (if truthyStr (runId_of b) \<and> \<not> truthyStr (runId existing)
                     then runId_of b else None),
       data_status = status_of b,
       data_completedAt = (if terminalStatus (status_of b) then Some (now env) else None),
       data_contactStatus = contactStatus_of b,
       data_contactedAt = Some (now env),
       data_summary = ifTruthy (summary_of b),
       data_transcript = ifTruthy (transcript_of b),
       data_urgentFlag = urgentFlag_of b,
       data_legalIssueFlag = legalIssueFlag_of b,
       data_humanRequested = humanRequested_of b,
       data_metadata = Some (mergedMetadata env b existing) \<rparr>"

definition riderData :: "Env \<Rightarrow> json \<Rightarrow> RiderData" where
  "riderData env b =
     \<lparr> data_lastContactAt = Some (now env),
       data_lastContactStatus = contactStatus_of b,
       data_rider_urgentFlag = urgentFlag_of b,
       data_rider_legalIssueFlag = legalIssueFlag_of b,
       data_rider_humanRequested = humanRequested_of b \<rparr>"

text \<open>Lines 211 to 268: the merge into the call and the projection onto its rider.\<close>

definition mergeResult ::
  "Env \<Rightarrow> json \<Rightarrow> Store \<Rightarrow> RiderCall \<Rightarrow> error + (RiderCall option \<times> Store)" where
  "mergeResult env b s existing =
     (case riderCall_update (now env) s (call_id existing) (callData env b existing) of
        Inl e \<Rightarrow> Inl e
      | Inr (updatedCall, s1) \<Rightarrow>
          (case rider_update (now env) s1 (riderId updatedCall) (riderData env b) of
             Inl e \<Rightarrow> Inl e
           | Inr (r, s2) \<Rightarrow> Inr (Some updatedCall, s2)))"

text \<open>The body of \<open>prisma.$transaction\<close>.\<close>

definition callbackTx :: "Env \<Rightarrow> json \<Rightarrow> Store \<Rightarrow> error + (RiderCall option \<times> Store)" where
  "callbackTx env b s =
     (case resolveCall env b s of
        Inl e \<Rightarrow> Inl e
      | Inr (None, s1) \<Rightarrow> Inr (None, s1)
      | Inr (Some existing, s1) \<Rightarrow> mergeResult env b s1 existing)"

text \<open>
  Lines 80 to 280, for a parsed body. A throw inside the transaction rolls it back and is
  answered by the outer \<open>catch\<close>.
\<close>

definition processBody :: "Env \<Rightarrow> json \<Rightarrow> Store \<Rightarrow> Response \<times> Store" where
  "processBody env b s =
     (if \<not> truthyStr (riderCallId_of b) \<and> \<not> truthyStr (runId_of b) \<and> \<not> truthyInt (externalId_of b)
      then (MissingCorrelationId, s)
      else case callbackTx env b s of
             Inl e \<Rightarrow> (InternalServerError, s)
           | Inr (None, s') \<Rightarrow> (CallNotFound, s')
           | Inr (Some updated, s') \<Rightarrow> (Ok, s'))"

text \<open>Lines 62 to 70: the secret check passes.\<close>

definition authorized :: "Env \<Rightarrow> Request \<Rightarrow> bool" where
  "authorized env req =
     (\<not> (truthyStr (callbackSecret env) \<and>
         orStr (happyrobotSecretHeader req) (callbackSecretHeader req) \<noteq> callbackSecret env))"

definition POST :: "Env \<Rightarrow> Request \<Rightarrow> Store \<Rightarrow> Response \<times> Store" where
  "POST env req s =
     (if \<not> authorized env req then (Unauthorized, s)
      else case body req of
             None \<Rightarrow> (InvalidJsonPayload, s)
           | Some b \<Rightarrow>
               if \<not> truthy b \<or> \<not> typeofObject (Some b) then (InvalidJsonPayload, s)
               else processBody env b s)"

section \<open>Example data\<close>

text \<open>
  A rider with one call that completed at 100 under the run identifier \<open>run_1\<close>, an open
  endpoint (no secret configured) whose clock reads 200, and some payloads.
\<close>

definition exRider :: Rider where
  "exRider = \<lparr> rider_id = ''r1'', externalId = Some 42, phoneNumber = ''+34600111222'',
     driverName = ''Ana'', lastContactAt = Some 100, lastContactStatus = Some Contact_COMPLETED,
     rider_urgentFlag = True, rider_legalIssueFlag = False, rider_humanRequested = False,
     rider_updatedAt = 100 \<rparr>"

definition exCallDone :: RiderCall where
  "exCallDone = \<lparr> call_id = ''c1'', runId = Some ''run_1'', status = COMPLETED,
     contactStatus = Some Contact_COMPLETED, contactedAt = Some 100, transcript = None,
     summary = Some ''ok'', urgentFlag = True, legalIssueFlag = False, humanRequested = False,
     metadata = JNull, createdAt = 10, updatedAt = 100, completedAt = Some 100, riderId = ''r1'' \<rparr>"

definition exStore :: Store where
  "exStore = \<lparr> riders = [exRider], calls = [exCallDone] \<rparr>"

definition exEnv :: Env where
  "exEnv = \<lparr> callbackSecret = None, now = 200, nowIso = ''1970-01-01T00:00:00.200Z'', newId = ''c9'' \<rparr>"

definition request :: "json \<Rightarrow> Request" where
  "request b = \<lparr> happyrobotSecretHeader = None, callbackSecretHeader = None, body = Some b \<rparr>"

definition exFailed :: json where
  "exFailed = JObj [(''run_id'', JStr ''run_1''), (''status'', JStr ''failed'')]"

definition exCompleted :: json where
  "exCompleted = JObj [(''run_id'', JStr ''run_1''), (''status'', JStr ''completed'')]"

definition exRunning :: json where
  "exRunning = JObj [(''run_id'', JStr ''run_1''), (''status'', JStr ''running'')]"

text \<open>A call whose stored run identifier is the empty string.\<close>

definition exCallEmptyRun :: RiderCall where
  "exCallEmptyRun = \<lparr> call_id = ''c3'', runId = Some [], status = RUNNING,
     contactStatus = None, contactedAt = None, transcript = None,
     summary = None, urgentFlag = False, legalIssueFlag = False, humanRequested = False,
     metadata = JNull, createdAt = 20, updatedAt = 20, completedAt = None, riderId = ''r1'' \<rparr>"

definition exStoreEmptyRun :: Store where
  "exStoreEmptyRun = \<lparr> riders = [exRider], calls = [exCallEmptyRun] \<rparr>"

definition exRun2 :: json where
  "exRun2 = JObj [(''call_id'', JStr ''c3''), (''run_id'', JStr ''run_2'')]"

definition exOtherRun :: json where
  "exOtherRun = JObj [(''call_id'', JStr ''c1''), (''run_id'', JStr ''run_2'')]"

definition exWrongId :: json where
  "exWrongId = JObj [(''call_id'', JStr ''zz''), (''run_id'', JStr ''run_1'')]"

definition exContext42 :: json where
  "exContext42 = JObj [(''context'', JStr ''42'')]"

definition exContext999 :: json where
  "exContext999 = JObj [(''context'', JStr ''999'')]"

definition exContextZero :: json where
  "exContextZero = JObj [(''context'', JStr ''0'')]"

definition exExternalZero :: json where
  "exExternalZero = JObj [(''external_id'', JNum 0)]"

definition exStoreNoCalls :: Store where
  "exStoreNoCalls = \<lparr> riders = [exRider], calls = [] \<rparr>"

text \<open>A rider with two running calls and nothing recorded yet, and a later reading of the clock.\<close>

definition exRiderFresh :: Rider where
  "exRiderFresh = \<lparr> rider_id = ''r1'', externalId = None, phoneNumber = ''+34600111222'',
     driverName = ''Ana'', lastContactAt = None, lastContactStatus = None,
     rider_urgentFlag = False, rider_legalIssueFlag = False, rider_humanRequested = False,
     rider_updatedAt = 10 \<rparr>"

definition exCallA :: RiderCall where
  "exCallA = \<lparr> call_id = ''c1'', runId = Some ''run_1'', status = RUNNING,
     contactStatus = None, contactedAt = None, transcript = None,
     summary = None, urgentFlag = False, legalIssueFlag = False, humanRequested = False,
     metadata = JNull, createdAt = 10, updatedAt = 11, completedAt = None, riderId = ''r1'' \<rparr>"

definition exCallB :: RiderCall where
  "exCallB = \<lparr> call_id = ''c2'', runId = Some ''run_2'', status = RUNNING,
     contactStatus = None, contactedAt = None, transcript = None,
     summary = None, urgentFlag = False, legalIssueFlag = False, humanRequested = False,
     metadata = JNull, createdAt = 20, updatedAt = 21, completedAt = None, riderId = ''r1'' \<rparr>"

definition exStoreTwo :: Store where
  "exStoreTwo = \<lparr> riders = [exRiderFresh], calls = [exCallA, exCallB] \<rparr>"

definition exEnv300 :: Env where
  "exEnv300 = \<lparr> callbackSecret = None, now = 300, nowIso = ''1970-01-01T00:00:00.300Z'', newId = ''c10'' \<rparr>"

definition exScenarioB :: json where
  "exScenarioB = JObj [(''run_id'', JStr ''run_1''), (''status'', JStr ''completed''),
                       (''summary'', JStr ''ok''), (''urgent_flag'', JBool True)]"

definition exSecond :: json where
  "exSecond = JObj [(''run_id'', JStr ''run_2''), (''status'', JStr ''completed'')]"

definition exAfterFirst :: Store where
  "exAfterFirst = snd (POST exEnv (request exScenarioB) exStoreTwo)"

definition exAfterSecond :: Store where
  "exAfterSecond = snd (POST exEnv300 (request exSecond) exAfterFirst)"

text \<open>
  The most recently updated call of a rider: the one with the greatest updated-at among the
  rider's calls. It is a notion of the specification; no function of the source computes it.
\<close>

fun latestUpdated :: "RiderCall list \<Rightarrow> RiderCall option" where
  "latestUpdated [] = None"
| "latestUpdated (c # cs) =
     (case latestUpdated cs of
        None \<Rightarrow> Some c
      | Some d \<Rightarrow> if updatedAt c < updatedAt d then Some d else Some c)"

definition mostRecentlyUpdatedCall :: "Store \<Rightarrow> string \<Rightarrow> RiderCall option" where
  "mostRecentlyUpdatedCall s rid = latestUpdated (filter (\<lambda>c. riderId c = rid) (calls s))"

definition exEmpty :: json where
  "exEmpty = JObj []"

text \<open>Payloads with the character U+0000 in a call id and in a summary, and a full payload.\<close>

definition exNulId :: json where
  "exNulId = JObj [(''call_id'', JStr [CHR ''z'', CHR 0x00])]"

definition exContext42Nul :: json where
  "exContext42Nul = JObj [(''context'', JStr ''42''), (''summary'', JStr [CHR ''a'', CHR 0x00, CHR ''b''])]"

definition exContext42Full :: json where
  "exContext42Full = JObj [(''context'', JStr ''42''), (''status'', JStr ''failed''),
     (''contact_status'', JStr ''voicemail''), (''summary'', JStr ''left a message''),
     (''transcript'', JStr ''hello''), (''urgent_flag'', JBool True)]"

definition exExternalBig :: json where
  "exExternalBig = JObj [(''external_id'', JNum 2147483648)]"

section \<open>Store and handler lemmas\<close>

lemma find_map_same:
  assumes "\<And>x. P (g x) = P x"
  shows "find P (map g xs) = map_option g (find P xs)"
  using assms by (induction xs) auto

lemma find_append_last:
  "find P (xs @ [y]) = (case find P xs of Some x \<Rightarrow> Some x | None \<Rightarrow> if P y then Some y else None)"
  by (induction xs) auto

lemma find_Some_mem: "find P xs = Some x \<Longrightarrow> x \<in> set xs \<and> P x"
  by (induction xs) (auto split: if_splits)

lemma find_None_iff': "find P xs = None \<longleftrightarrow> (\<forall>x \<in> set xs. \<not> P x)"
  by (induction xs) auto

lemma newest_mem: "newest xs = Some x \<Longrightarrow> x \<in> set xs"
  by (induction xs arbitrary: x) (auto split: option.splits if_splits)

lemma newest_None: "newest xs = None \<longleftrightarrow> xs = []"
  by (induction xs) (auto split: option.splits)

lemma findFirstCall_mem: "findFirstCall s P = Some c \<Longrightarrow> c \<in> set (calls s) \<and> P c"
  using newest_mem[of "filter P (calls s)" c] by (auto simp: findFirstCall_def)

lemma findFirstCall_None: "findFirstCall s P = None \<longleftrightarrow> (\<forall>c \<in> set (calls s). \<not> P c)"
  by (auto simp: findFirstCall_def newest_None filter_empty_conv)

lemma call_id_applyCallData [simp]: "call_id (applyCallData t d c) = call_id c"
  by (simp add: applyCallData_def)

lemma riderId_applyCallData [simp]: "riderId (applyCallData t d c) = riderId c"
  by (simp add: applyCallData_def)

lemma rider_id_applyRiderData [simp]: "rider_id (applyRiderData t d r) = rider_id r"
  by (simp add: applyRiderData_def)

lemma findUniqueCall_mem: "findUniqueCall s w = Inr (Some c) \<Longrightarrow> c \<in> set (calls s)"
  by (cases "(s, w)" rule: findUniqueCall.cases)
     (auto simp: findCallById_def findCallByRunId_def split: if_splits dest: find_Some_mem)

lemma riderCall_update_Inr:
  assumes "riderCall_update t s i d = Inr (u, s1)"
  shows "\<exists>e0. findCallById s i = Some e0 \<and> u = applyCallData t d e0 \<and>
           calls s1 = map (\<lambda>e. if call_id e = i then applyCallData t d e else e) (calls s) \<and>
           riders s1 = riders s"
  using assms by (auto simp: riderCall_update_def split: option.splits if_splits)

lemma rider_update_Inr:
  assumes "rider_update t s i d = Inr (u, s1)"
  shows "\<exists>r0. findRiderById s i = Some r0 \<and> u = applyRiderData t d r0 \<and>
           riders s1 = map (\<lambda>e. if rider_id e = i then applyRiderData t d e else e) (riders s) \<and>
           calls s1 = calls s"
  using assms by (auto simp: rider_update_def split: option.splits)

lemma mergeResult_Inr:
  assumes "mergeResult env b s e = Inr (x, s2)"
  shows "\<exists>e0 r0. findCallById s (call_id e) = Some e0 \<and>
           x = Some (applyCallData (now env) (callData env b e) e0) \<and>
           findRiderById s (riderId e0) = Some r0 \<and>
           calls s2 = map (\<lambda>c. if call_id c = call_id e
                                then applyCallData (now env) (callData env b e) c else c) (calls s) \<and>
           riders s2 = map (\<lambda>r. if rider_id r = riderId e0
                                 then applyRiderData (now env) (riderData env b) r else r) (riders s)"
proof -
  from assms obtain u s1 where
    up: "riderCall_update (now env) s (call_id e) (callData env b e) = Inr (u, s1)"
    by (auto simp: mergeResult_def split: sum.splits)
  with assms obtain r where
    ru: "rider_update (now env) s1 (riderId u) (riderData env b) = Inr (r, s2)" and x: "x = Some u"
    by (auto simp: mergeResult_def split: sum.splits)
  from riderCall_update_Inr[OF up] rider_update_Inr[OF ru] x show ?thesis
    by (auto simp: findRiderById_def)
qed

lemma call_id_newCall [simp]: "call_id (newCall env b rider n) = newId env"
  by (simp add: newCall_def)

lemma riderId_newCall [simp]: "riderId (newCall env b rider n) = rider_id rider"
  by (simp add: newCall_def)

lemma riderCall_create_Inr:
  assumes "riderCall_create s c = Inr (u, s1)"
  shows "u = c \<and> s1 = s\<lparr>calls := calls s @ [c]\<rparr> \<and> (\<forall>d \<in> set (calls s). call_id d \<noteq> call_id c)"
  using assms by (auto simp: riderCall_create_def split: if_splits)

lemma orEnum_Some: "orEnum a b = Some x \<Longrightarrow> a = Some x \<or> b = Some x"
  by (auto simp: orEnum_def split: option.splits)

lemma orEnum_None: "orEnum a b = None \<Longrightarrow> a = None \<and> b = None"
  by (auto simp: orEnum_def split: option.splits)

lemma resolveByExternalId_Inr:
  assumes "resolveByExternalId env b s v = Inr (x, s1)"
  shows "(s1 = s \<and> (x = None \<or> (\<exists>e \<in> set (calls s). x = Some e))) \<or>
         (\<exists>rider. x = Some (newCall env b rider v) \<and>
                   s1 = s\<lparr>calls := calls s @ [newCall env b rider v]\<rparr> \<and>
                   (\<forall>d \<in> set (calls s). call_id d \<noteq> newId env \<and> riderId d \<noteq> rider_id rider))"
proof -
  from assms obtain found where f: "rider_findUnique s v = Inr found"
    by (cases "rider_findUnique s v") (auto simp: resolveByExternalId_def)
  show ?thesis
  proof (cases found)
    case None
    with assms f show ?thesis by (simp add: resolveByExternalId_def)
  next
    case (Some rider)
    let ?found = "orEnum (findFirstCall s (openCall (rider_id rider)))
                         (findFirstCall s (\<lambda>c. riderId c = rider_id rider))"
    show ?thesis
    proof (cases ?found)
      case (Some c)
      from orEnum_Some[OF this] have "c \<in> set (calls s)"
        by (auto dest: findFirstCall_mem)
      moreover from assms f \<open>found = Some rider\<close> Some
      have "x = Some c \<and> s1 = s" by (simp add: resolveByExternalId_def)
      ultimately show ?thesis by blast
    next
      case None
      from orEnum_None[OF this] have none: "\<forall>d \<in> set (calls s). riderId d \<noteq> rider_id rider"
        by (simp add: findFirstCall_None)
      from assms f \<open>found = Some rider\<close> None
      obtain u where cr: "riderCall_create s (newCall env b rider v) = Inr (u, s1)" and x: "x = Some u"
        by (auto simp: resolveByExternalId_def split: sum.splits)
      from riderCall_create_Inr[OF cr] x none
      show ?thesis by auto
    qed
  qed
qed

lemma resolveCall_Inr:
  assumes "resolveCall env b s = Inr (x, s1)"
  shows "(s1 = s \<and> (x = None \<or> (\<exists>e \<in> set (calls s). x = Some e))) \<or>
         (\<exists>rider v. x = Some (newCall env b rider v) \<and>
                   s1 = s\<lparr>calls := calls s @ [newCall env b rider v]\<rparr> \<and>
                   (\<forall>d \<in> set (calls s). call_id d \<noteq> newId env \<and> riderId d \<noteq> rider_id rider))"
proof -
  from assms obtain existing where ex: "findUniqueCall s (whereOf b) = Inr existing"
    by (cases "findUniqueCall s (whereOf b)") (auto simp: resolveCall_def)
  have mem: "existing = None \<or> (\<exists>e \<in> set (calls s). existing = Some e)"
    using ex by (cases existing) (auto dest: findUniqueCall_mem)
  show ?thesis
  proof (cases "externalId_of b")
    case None
    with assms ex mem show ?thesis by (auto simp: resolveCall_def)
  next
    case (Some v)
    show ?thesis
    proof (cases "existing = None \<and> truthyInt (Some v)")
      case True
      with assms ex Some have "resolveByExternalId env b s v = Inr (x, s1)"
        by (simp add: resolveCall_def)
      from resolveByExternalId_Inr[OF this] show ?thesis by blast
    next
      case False
      with assms ex Some mem show ?thesis by (auto simp: resolveCall_def)
    qed
  qed
qed

lemma callbackTx_Some:
  assumes "callbackTx env b s = Inr (Some u, s')"
  shows "\<exists>e s1 e0 r0. resolveCall env b s = Inr (Some e, s1) \<and>
           findCallById s1 (call_id e) = Some e0 \<and>
           u = applyCallData (now env) (callData env b e) e0 \<and>
           findRiderById s1 (riderId e0) = Some r0 \<and>
           calls s' = map (\<lambda>c. if call_id c = call_id e
                                then applyCallData (now env) (callData env b e) c else c) (calls s1) \<and>
           riders s' = map (\<lambda>r. if rider_id r = riderId e0
                                 then applyRiderData (now env) (riderData env b) r else r) (riders s1)"
proof -
  from assms obtain e s1 where
    rc: "resolveCall env b s = Inr (Some e, s1)" and mr: "mergeResult env b s1 e = Inr (Some u, s')"
    by (auto simp: callbackTx_def split: sum.splits option.splits)
  from mergeResult_Inr[OF mr] rc show ?thesis by blast
qed

lemma callbackTx_None:
  assumes "callbackTx env b s = Inr (None, s')"
  shows "s' = s"
proof -
  from assms have "resolveCall env b s = Inr (None, s') \<or>
      (\<exists>e s1. mergeResult env b s1 e = Inr (None, s'))"
    by (auto simp: callbackTx_def split: sum.splits option.splits)
  then show ?thesis
  proof
    assume "resolveCall env b s = Inr (None, s')"
    from resolveCall_Inr[OF this] show ?thesis by auto
  next
    assume "\<exists>e s1. mergeResult env b s1 e = Inr (None, s')"
    then obtain e s1 where "mergeResult env b s1 e = Inr (None, s')" by blast
    from mergeResult_Inr[OF this] show ?thesis by auto
  qed
qed

lemma processBody_cases:
  assumes "processBody env b s = (r, s')"
  shows "(r = Ok \<and> (\<exists>u. callbackTx env b s = Inr (Some u, s'))) \<or> (r \<noteq> Ok \<and> s' = s)"
proof (cases "callbackTx env b s")
  case (Inl e)
  with assms show ?thesis by (auto simp: processBody_def split: if_splits)
next
  case (Inr p)
  obtain x s1 where p: "p = (x, s1)" by (cases p)
  show ?thesis
  proof (cases x)
    case None
    with Inr p callbackTx_None[of env b s s1] have "s1 = s" by simp
    with assms Inr p None show ?thesis by (auto simp: processBody_def split: if_splits)
  next
    case (Some u)
    with assms Inr p show ?thesis by (auto simp: processBody_def split: if_splits)
  qed
qed

lemma findCallById_id: "findCallById s i = Some c \<Longrightarrow> call_id c = i \<and> c \<in> set (calls s)"
  by (auto simp: findCallById_def dest: find_Some_mem)

lemma findRiderById_id: "findRiderById s i = Some r \<Longrightarrow> rider_id r = i \<and> r \<in> set (riders s)"
  by (auto simp: findRiderById_def dest: find_Some_mem)

lemma callbackTx_call_frame:
  assumes tx: "callbackTx env b s = Inr (Some u, s')" and c: "findCallById s i = Some c"
  shows "findCallById s' i = Some c \<or>
         (\<exists>e \<in> set (calls s). call_id e = i \<and>
            findCallById s' i = Some (applyCallData (now env) (callData env b e) c))"
proof -
  from callbackTx_Some[OF tx] obtain e s1 e0 r0 where
    rc: "resolveCall env b s = Inr (Some e, s1)" and
    e0: "findCallById s1 (call_id e) = Some e0" and
    u: "u = applyCallData (now env) (callData env b e) e0" and
    r0: "findRiderById s1 (riderId e0) = Some r0" and
    cs: "calls s' = map (\<lambda>c. if call_id c = call_id e
                          then applyCallData (now env) (callData env b e) c else c) (calls s1)" and
    rs: "riders s' = map (\<lambda>r. if rider_id r = riderId e0
                           then applyRiderData (now env) (riderData env b) r else r) (riders s1)"
    by blast
  let ?g = "\<lambda>c. if call_id c = call_id e then applyCallData (now env) (callData env b e) c else c"
  have after: "findCallById s' i = map_option ?g (findCallById s1 i)"
    unfolding findCallById_def cs by (simp add: find_map_same)
  from c have ci: "call_id c = i" "c \<in> set (calls s)" by (auto dest: findCallById_id)
  from resolveCall_Inr[OF rc] show ?thesis
  proof
    assume "s1 = s \<and> (Some e = None \<or> (\<exists>e' \<in> set (calls s). Some e = Some e'))"
    then have "s1 = s" "e \<in> set (calls s)" by auto
    with after c ci show ?thesis by auto
  next
    assume "\<exists>rider n. Some e = Some (newCall env b rider n) \<and>
              s1 = s\<lparr>calls := calls s @ [newCall env b rider n]\<rparr> \<and>
              (\<forall>d \<in> set (calls s). call_id d \<noteq> newId env \<and> riderId d \<noteq> rider_id rider)"
    then obtain rider n where e: "e = newCall env b rider n"
      and s1: "s1 = s\<lparr>calls := calls s @ [e]\<rparr>"
      and fresh: "\<forall>d \<in> set (calls s). call_id d \<noteq> newId env" by auto
    from c have "findCallById s1 i = Some c"
      by (simp add: s1 findCallById_def find_append_last)
    moreover from fresh ci e have "call_id c \<noteq> call_id e" by auto
    ultimately show ?thesis using after by simp
  qed
qed

lemma resolveCall_riders:
  assumes "resolveCall env b s = Inr (x, s1)"
  shows "riders s1 = riders s"
  using resolveCall_Inr[OF assms] by auto

lemma callbackTx_rider_frame:
  assumes tx: "callbackTx env b s = Inr (Some u, s')" and x: "findRiderById s i = Some x"
  shows "findRiderById s' i = Some x \<or>
         findRiderById s' i = Some (applyRiderData (now env) (riderData env b) x)"
proof -
  from callbackTx_Some[OF tx] obtain e s1 e0 r0 where
    rc: "resolveCall env b s = Inr (Some e, s1)" and
    e0: "findCallById s1 (call_id e) = Some e0" and
    u: "u = applyCallData (now env) (callData env b e) e0" and
    r0: "findRiderById s1 (riderId e0) = Some r0" and
    cs: "calls s' = map (\<lambda>c. if call_id c = call_id e
                          then applyCallData (now env) (callData env b e) c else c) (calls s1)" and
    rs: "riders s' = map (\<lambda>r. if rider_id r = riderId e0
                           then applyRiderData (now env) (riderData env b) r else r) (riders s1)"
    by blast
  from resolveCall_riders[OF rc] have "riders s1 = riders s" .
  with rs have "findRiderById s' i =
      map_option (\<lambda>r. if rider_id r = riderId e0
                       then applyRiderData (now env) (riderData env b) r else r) (findRiderById s i)"
    unfolding findRiderById_def by (simp add: find_map_same)
  with x show ?thesis by auto
qed

lemma processBody_call_frame:
  assumes "processBody env b s = (r, s')" and "findCallById s i = Some c"
  shows "findCallById s' i = Some c \<or>
         (r = Ok \<and> (\<exists>e \<in> set (calls s). call_id e = i \<and>
            findCallById s' i = Some (applyCallData (now env) (callData env b e) c)))"
  using processBody_cases[OF assms(1)] assms(2) callbackTx_call_frame[of env b s _ s' i c]
  by blast

lemma processBody_rider_frame:
  assumes "processBody env b s = (r, s')" and "findRiderById s i = Some x"
  shows "findRiderById s' i = Some x \<or>
         (r = Ok \<and> findRiderById s' i = Some (applyRiderData (now env) (riderData env b) x))"
  using processBody_cases[OF assms(1)] assms(2) callbackTx_rider_frame[of env b s _ s' i x]
  by blast

lemma callbackTx_updated:
  assumes tx: "callbackTx env b s = Inr (Some u, s')"
  shows "\<exists>e e0 r0. call_id e0 = call_id e \<and>
           u = applyCallData (now env) (callData env b e) e0 \<and>
           findCallById s' (call_id u) = Some u \<and>
           rider_id r0 = riderId u \<and>
           findRiderById s' (riderId u) = Some (applyRiderData (now env) (riderData env b) r0)"
proof -
  from callbackTx_Some[OF tx] obtain e s1 e0 r0 where
    rc: "resolveCall env b s = Inr (Some e, s1)" and
    e0: "findCallById s1 (call_id e) = Some e0" and
    u: "u = applyCallData (now env) (callData env b e) e0" and
    r0: "findRiderById s1 (riderId e0) = Some r0" and
    cs: "calls s' = map (\<lambda>c. if call_id c = call_id e
                          then applyCallData (now env) (callData env b e) c else c) (calls s1)" and
    rs: "riders s' = map (\<lambda>r. if rider_id r = riderId e0
                           then applyRiderData (now env) (riderData env b) r else r) (riders s1)"
    by blast
  from e0 have id0: "call_id e0 = call_id e" by (auto dest: findCallById_id)
  from r0 have idr: "rider_id r0 = riderId e0" by (auto dest: findRiderById_id)
  have "findCallById s' (call_id u) = map_option (\<lambda>c. if call_id c = call_id e
          then applyCallData (now env) (callData env b e) c else c) (findCallById s1 (call_id u))"
    unfolding findCallById_def cs by (simp add: find_map_same)
  with e0 u id0 have a: "findCallById s' (call_id u) = Some u" by simp
  have "findRiderById s' (riderId u) = map_option (\<lambda>r. if rider_id r = riderId e0
          then applyRiderData (now env) (riderData env b) r else r) (findRiderById s1 (riderId u))"
    unfolding findRiderById_def rs by (simp add: find_map_same)
  with r0 u idr have b: "findRiderById s' (riderId u) =
      Some (applyRiderData (now env) (riderData env b) r0)" by simp
  from a b u id0 idr show ?thesis by auto
qed

lemma applyCallData_callData:
  "status (applyCallData t (callData env b e) c) = keep (status_of b) (status c)"
  "completedAt (applyCallData t (callData env b e) c) =
     (if terminalStatus (status_of b) then Some (now env) else completedAt c)"
  "contactedAt (applyCallData t (callData env b e) c) = Some (now env)"
  "contactStatus (applyCallData t (callData env b e) c) = keepOpt (contactStatus_of b) (contactStatus c)"
  "summary (applyCallData t (callData env b e) c) = keepOpt (ifTruthy (summary_of b)) (summary c)"
  "transcript (applyCallData t (callData env b e) c) = keepOpt (ifTruthy (transcript_of b)) (transcript c)"
  "urgentFlag (applyCallData t (callData env b e) c) = keep (urgentFlag_of b) (urgentFlag c)"
  "legalIssueFlag (applyCallData t (callData env b e) c) = keep (legalIssueFlag_of b) (legalIssueFlag c)"
  "humanRequested (applyCallData t (callData env b e) c) = keep (humanRequested_of b) (humanRequested c)"
  "runId (applyCallData t (callData env b e) c) =
     (if truthyStr (runId_of b) \<and> \<not> truthyStr (runId e) then keepOpt (runId_of b) (runId c) else runId c)"
  "updatedAt (applyCallData t (callData env b e) c) = t"
  by (simp_all add: applyCallData_def callData_def keep_def keepOpt_def)

lemma applyRiderData_riderData:
  "lastContactAt (applyRiderData t (riderData env b) r) = Some (now env)"
  "lastContactStatus (applyRiderData t (riderData env b) r) = keepOpt (contactStatus_of b) (lastContactStatus r)"
  "rider_urgentFlag (applyRiderData t (riderData env b) r) = keep (urgentFlag_of b) (rider_urgentFlag r)"
  "rider_legalIssueFlag (applyRiderData t (riderData env b) r) = keep (legalIssueFlag_of b) (rider_legalIssueFlag r)"
  "rider_humanRequested (applyRiderData t (riderData env b) r) = keep (humanRequested_of b) (rider_humanRequested r)"
  by (simp_all add: applyRiderData_def riderData_def keep_def keepOpt_def)

lemma processBody_Ok:
  assumes "processBody env b s = (Ok, s')"
  shows "\<exists>u. callbackTx env b s = Inr (Some u, s')"
  using processBody_cases[OF assms] by simp


lemma distinct_call_id:
  assumes "distinct (map call_id xs)" "x \<in> set xs" "y \<in> set xs" "call_id x = call_id y"
  shows "x = y"
  using assms by (meson distinct_map inj_onD)


lemma ex_failed_absent:
  "urgentFlag_of exFailed = None" "legalIssueFlag_of exFailed = None"
  "humanRequested_of exFailed = None" "contactStatus_of exFailed = None"
  "summary_of exFailed = None" "transcript_of exFailed = None"
  by code_simp+


lemma ex_failed_run: "processBody exEnv exFailed exStore = (Ok, snd (processBody exEnv exFailed exStore))"
  by code_simp


lemma ex_completed_run:
  "processBody exEnv exCompleted exStore = (Ok, snd (processBody exEnv exCompleted exStore))"
  by code_simp


lemma ex_completed_terminal: "terminalStatus (status_of exCompleted)"
  by code_simp


lemma ex_running_not_terminal: "\<not> terminalStatus (status_of exRunning)"
  by code_simp


lemma trim_Nil [simp]: "trim [] = []"
  by (simp add: trim_def)

lemma asString_Some: "asString v = Some x \<Longrightarrow> x \<noteq> []"
  by (cases v rule: asString.cases) (auto split: if_splits)

lemma orStr_Some_nonempty:
  assumes "orStr a b = Some x" "\<And>y. a = Some y \<Longrightarrow> y \<noteq> []" "\<And>y. b = Some y \<Longrightarrow> y \<noteq> []"
  shows "x \<noteq> []"
  using assms by (auto simp: orStr_def split: if_splits)

lemma riderCallId_of_Some: "riderCallId_of b = Some x \<Longrightarrow> x \<noteq> []"
  unfolding riderCallId_of_def
  by (erule orStr_Some_nonempty; (erule asString_Some)?)+

lemma runId_of_Some: "runId_of b = Some x \<Longrightarrow> x \<noteq> []"
  unfolding runId_of_def
  by (erule orStr_Some_nonempty; (erule asString_Some)?)+

lemma truthy_riderCallId_of: "truthyStr (riderCallId_of b) \<longleftrightarrow> riderCallId_of b \<noteq> None"
  using riderCallId_of_Some[of b] by (cases "riderCallId_of b") (auto simp: truthyStr_def)

lemma truthy_runId_of: "truthyStr (runId_of b) \<longleftrightarrow> runId_of b \<noteq> None"
  using runId_of_Some[of b] by (cases "runId_of b") (auto simp: truthyStr_def)

lemma whereOf_id: "riderCallId_of b = Some i \<Longrightarrow> whereOf b = Some (WhereId i)"
  using riderCallId_of_Some[of b i] by (simp add: whereOf_def truthyStr_def)

lemma whereOf_run:
  "riderCallId_of b = None \<Longrightarrow> runId_of b = Some r \<Longrightarrow> whereOf b = Some (WhereRunId r)"
  using runId_of_Some[of b r] by (simp add: whereOf_def truthyStr_def)

lemma whereOf_none: "riderCallId_of b = None \<Longrightarrow> runId_of b = None \<Longrightarrow> whereOf b = None"
  by (simp add: whereOf_def truthyStr_def)

lemma resolveCall_found:
  "findUniqueCall s (whereOf b) = Inr (Some c) \<Longrightarrow> resolveCall env b s = Inr (Some c, s)"
  by (simp add: resolveCall_def split: option.splits)

lemma resolveCall_external:
  "findUniqueCall s (whereOf b) = Inr None \<Longrightarrow> externalId_of b = Some v \<Longrightarrow>
   truthyInt (Some v) \<Longrightarrow> resolveCall env b s = resolveByExternalId env b s v"
  by (simp add: resolveCall_def)

lemma resolveCall_nothing:
  "findUniqueCall s (whereOf b) = Inr None \<Longrightarrow> \<not> truthyInt (externalId_of b) \<Longrightarrow>
   resolveCall env b s = Inr (None, s)"
  by (auto simp: resolveCall_def split: option.splits)

lemma resolveCall_throws:
  "findUniqueCall s (whereOf b) = Inl e \<Longrightarrow> resolveCall env b s = Inl e"
  by (simp add: resolveCall_def)

lemma processBody_not_found:
  assumes "resolveCall env b s = Inr (None, s)"
    and "truthyStr (riderCallId_of b) \<or> truthyStr (runId_of b) \<or> truthyInt (externalId_of b)"
  shows "processBody env b s = (CallNotFound, s)"
  using assms by (auto simp: processBody_def callbackTx_def)


lemma ex_scenarioB_run:
  "processBody exEnv exScenarioB exStoreTwo = (Ok, snd (processBody exEnv exScenarioB exStoreTwo))"
  by code_simp


lemma ex_scenarioB_fields:
  "contactStatus_of exScenarioB = None" "urgentFlag_of exScenarioB = Some True"
  by code_simp+


lemma findCallById_fresh_append:
  assumes "\<forall>c \<in> set (calls s). call_id c \<noteq> call_id u"
  shows "findCallById (s\<lparr>calls := calls s @ [u]\<rparr>) (call_id u) = Some u"
proof -
  from assms have "find (\<lambda>c. call_id c = call_id u) (calls s) = None"
    by (simp add: find_None_iff')
  then show ?thesis by (simp add: findCallById_def find_append_last)
qed

lemma map_update_fresh_append:
  assumes "\<forall>c \<in> set xs. call_id c \<noteq> call_id u"
  shows "map (\<lambda>e. if call_id e = call_id u then f e else e) (xs @ [u]) = xs @ [f u]"
  using assms by (simp add: map_idI)


lemma toLowerCase_Nil: "toLowerCase [] = []"
  by (simp add: toLowerCase_def)


lemma ex_normal_forms:
  "toLowerCase (trim '' T '') = ''t''" "toLowerCase (trim '' Yes '') = ''yes''"
  "toLowerCase (trim ''-'') = ''-''" "toLowerCase (trim ''NO'') = ''no''"
  by code_simp+


text \<open>A flag none of whose recognised keys occurs in the payload is extracted as absent.\<close>

lemma urgentFlag_of_absent:
  assumes "getProp (Some b) ''urgent_flag'' = None" "getProp (Some b) ''urgent'' = None"
    "getProp (Some b) ''result'' = None"
  shows "urgentFlag_of b = None"
  using assms by (simp add: urgentFlag_of_def nullish_def)

lemma legalIssueFlag_of_absent:
  assumes "getProp (Some b) ''legal_issue_flag'' = None" "getProp (Some b) ''legal_issue'' = None"
    "getProp (Some b) ''result'' = None"
  shows "legalIssueFlag_of b = None"
  using assms by (simp add: legalIssueFlag_of_def nullish_def)

lemma humanRequested_of_absent:
  assumes "getProp (Some b) ''human_requested'' = None" "getProp (Some b) ''humanRequested'' = None"
    "getProp (Some b) ''result'' = None"
  shows "humanRequested_of b = None"
  using assms by (simp add: humanRequested_of_def nullish_def)

text \<open>
  For an authorized request whose body is a JSON object or array the handler is
  \<open>processBody\<close>; an ok answer always comes from there.
\<close>

lemma POST_processBody:
  assumes "authorized env req"
    and "body req = Some b" and "truthy b" and "typeofObject (Some b)"
  shows "POST env req s = processBody env b s"
  using assms by (auto simp: POST_def)

lemma POST_Ok:
  assumes "POST env req s = (Ok, s')"
  shows "\<exists>b. body req = Some b \<and> processBody env b s = (Ok, s')"
  using assms by (auto simp: POST_def split: if_splits option.splits)

lemma truthyInt_Some: "truthyInt (Some v) \<longleftrightarrow> v \<noteq> Finite 0"
  by (cases v) (simp_all add: truthyInt_def)

lemma processBody_throws:
  assumes "resolveCall env b s = Inl e"
    and "truthyStr (riderCallId_of b) \<or> truthyStr (runId_of b) \<or> truthyInt (externalId_of b)"
  shows "processBody env b s = (InternalServerError, s)"
  using assms by (auto simp: processBody_def callbackTx_def)

text \<open>Only a JSON object yields an identifier.\<close>

lemma externalId_of_object:
  assumes "externalId_of b = Some v"
  shows "truthy b \<and> typeofObject (Some b)"
  using assms by (cases b) (simp_all add: externalId_of_def orInt_def truthyInt_def)

lemma riderCallId_of_object:
  assumes "riderCallId_of b = Some v"
  shows "truthy b \<and> typeofObject (Some b)"
  using assms by (cases b) (simp_all add: riderCallId_of_def orStr_def truthyStr_def)

lemma runId_of_object:
  assumes "runId_of b = Some v"
  shows "truthy b \<and> typeofObject (Some b)"
  using assms by (cases b) (simp_all add: runId_of_def orStr_def truthyStr_def)

lemma summary_of_Some: "summary_of b = Some x \<Longrightarrow> x \<noteq> []"
  unfolding summary_of_def
  by (erule orStr_Some_nonempty; (erule asString_Some)?)+

lemma transcript_of_Some: "transcript_of b = Some x \<Longrightarrow> x \<noteq> []"
  unfolding transcript_of_def
  by (erule orStr_Some_nonempty; (erule asString_Some)?)+

lemma ifTruthy_summary_of [simp]: "ifTruthy (summary_of b) = summary_of b"
  using summary_of_Some[of b] by (cases "summary_of b") (auto simp: ifTruthy_def truthyStr_def)

lemma ifTruthy_transcript_of [simp]: "ifTruthy (transcript_of b) = transcript_of b"
  using transcript_of_Some[of b] by (cases "transcript_of b") (auto simp: ifTruthy_def truthyStr_def)

text \<open>What the merge writes into the metadata of a call just created is text the database takes.\<close>

lemma storable_setKey:
  assumes "storableText k" "storableJson v" "\<forall>p \<in> set ps. storableText (fst p) \<and> storableJson (snd p)"
  shows "\<forall>p \<in> set (setKey k v ps). storableText (fst p) \<and> storableJson (snd p)"
  using assms by (induction ps) auto

lemma storable_setKeyIf:
  assumes "storableText k" "\<And>x. v = Some x \<Longrightarrow> storableJson x"
    "\<forall>p \<in> set ps. storableText (fst p) \<and> storableJson (snd p)"
  shows "\<forall>p \<in> set (setKeyIf k v ps). storableText (fst p) \<and> storableJson (snd p)"
  using assms by (cases v) (auto simp: setKeyIf_def dest: storable_setKey[rotated 2])

lemma storableText_literals:
  "storableText ''source''" "storableText ''externalId''" "storableText ''callback_external_id''"
  "storableText ''workflowResult''" "storableText ''happyrobotCallback''"
  "storableText ''summary''" "storableText ''transcript''" "storableText ''contactStatus''"
  "storableText ''urgentFlag''" "storableText ''legalIssueFlag''" "storableText ''humanRequested''"
  "storableText ''lastCallbackAt''" "storableText ''receivedAt''" "storableText ''runId''"
  by (simp_all add: storableText_def)

lemma storableText_contactStatusName: "storableText (contactStatusName c)"
  by (cases c) (simp_all add: storableText_def)

lemma mergedMetadata_newCall_storable:
  assumes "storableOpt (summary_of b)" "storableOpt (transcript_of b)" "storableText (nowIso env)"
    and "runId_of b = None"
  shows "storableJson (mergedMetadata env b (newCall env b rider (Finite n)))"
proof -
  let ?nc = "newCall env b rider (Finite n)"
  have md: "metadata ?nc = JObj [(''source'', JStr ''callback_external_id''),
                                (''externalId'', JNum (of_int n))]"
    by (simp add: newCall_def)
  have rn: "runId ?nc = None" using assms(4) by (simp add: newCall_def ifTruthy_def truthyStr_def)
  have w0: "\<forall>p \<in> set ([] :: (string \<times> json) list). storableText (fst p) \<and> storableJson (snd p)"
    by simp
  note lits = storableText_literals
  have w1: "\<forall>p \<in> set (setKeyIf ''summary'' (map_option JStr (ifTruthy (summary_of b))) []).
              storableText (fst p) \<and> storableJson (snd p)"
    using assms(1) by (intro storable_setKeyIf lits w0) (auto simp: storableOpt_def)
  have w2: "\<forall>p \<in> set (setKeyIf ''transcript'' (map_option JStr (ifTruthy (transcript_of b)))
                (setKeyIf ''summary'' (map_option JStr (ifTruthy (summary_of b))) [])).
              storableText (fst p) \<and> storableJson (snd p)"
    using assms(2) by (intro storable_setKeyIf lits w1) (auto simp: storableOpt_def)
  let ?w2 = "setKeyIf ''transcript'' (map_option JStr (ifTruthy (transcript_of b)))
                (setKeyIf ''summary'' (map_option JStr (ifTruthy (summary_of b))) [])"
  have w3: "\<forall>p \<in> set (setKeyIf ''contactStatus''
                 (map_option (\<lambda>c. JStr (contactStatusName c)) (contactStatus_of b)) ?w2).
              storableText (fst p) \<and> storableJson (snd p)"
    by (intro storable_setKeyIf lits w2) (auto simp: storableText_contactStatusName)
  let ?w3 = "setKeyIf ''contactStatus''
                 (map_option (\<lambda>c. JStr (contactStatusName c)) (contactStatus_of b)) ?w2"
  have w4: "\<forall>p \<in> set (setKeyIf ''urgentFlag'' (map_option JBool (urgentFlag_of b)) ?w3).
              storableText (fst p) \<and> storableJson (snd p)"
    by (intro storable_setKeyIf lits w3) auto
  let ?w4 = "setKeyIf ''urgentFlag'' (map_option JBool (urgentFlag_of b)) ?w3"
  have w5: "\<forall>p \<in> set (setKeyIf ''legalIssueFlag'' (map_option JBool (legalIssueFlag_of b)) ?w4).
              storableText (fst p) \<and> storableJson (snd p)"
    by (intro storable_setKeyIf lits w4) auto
  let ?w5 = "setKeyIf ''legalIssueFlag'' (map_option JBool (legalIssueFlag_of b)) ?w4"
  have w6: "\<forall>p \<in> set (setKeyIf ''humanRequested'' (map_option JBool (humanRequested_of b)) ?w5).
              storableText (fst p) \<and> storableJson (snd p)"
    by (intro storable_setKeyIf lits w5) auto
  let ?w6 = "setKeyIf ''humanRequested'' (map_option JBool (humanRequested_of b)) ?w5"
  have w7: "\<forall>p \<in> set (setKey ''lastCallbackAt'' (JStr (nowIso env)) ?w6).
              storableText (fst p) \<and> storableJson (snd p)"
    using assms(3) by (intro storable_setKey lits w6) simp
  let ?wr = "JObj (setKey ''lastCallbackAt'' (JStr (nowIso env)) ?w6)"
  have wr: "storableJson ?wr" using w7 by simp
  let ?hc = "JObj [(''receivedAt'', JStr (nowIso env)), (''runId'', JNull)]"
  have hc: "storableJson ?hc" using assms(3) by (simp add: lits)
  have base: "\<forall>p \<in> set [(''source'', JStr ''callback_external_id''), (''externalId'', JNum (of_int n))].
      storableText (fst p) \<and> storableJson (snd p)"
    by (simp add: lits)
  have eq: "mergedMetadata env b ?nc =
      JObj (setKey ''happyrobotCallback'' ?hc (setKey ''workflowResult'' ?wr
        [(''source'', JStr ''callback_external_id''), (''externalId'', JNum (of_int n))]))"
    using assms(4) by (simp add: mergedMetadata_def md rn Let_def orStr_def truthyStr_def jsonOfStr_def)
  have "\<forall>p \<in> set (setKey ''happyrobotCallback'' ?hc (setKey ''workflowResult'' ?wr
        [(''source'', JStr ''callback_external_id''), (''externalId'', JNum (of_int n))])).
      storableText (fst p) \<and> storableJson (snd p)"
    by (intro storable_setKey lits hc wr base)
  then show ?thesis unfolding eq by simp
qed

lemma ex_open_request: "authorized exEnv (request b)" "body (request b) = Some b"
  by (simp_all add: authorized_def exEnv_def request_def truthyStr_def)


lemma processBody_missing:
  "fst (processBody env b s) = MissingCorrelationId \<longleftrightarrow>
     riderCallId_of b = None \<and> runId_of b = None \<and>
     (externalId_of b = None \<or> externalId_of b = Some (Finite 0))"
proof -
  have c: "(\<not> truthyStr (riderCallId_of b) \<and> \<not> truthyStr (runId_of b) \<and> \<not> truthyInt (externalId_of b))
      \<longleftrightarrow> (riderCallId_of b = None \<and> runId_of b = None \<and>
           (externalId_of b = None \<or> externalId_of b = Some (Finite 0)))"
    by (cases "externalId_of b")
       (auto simp: truthy_riderCallId_of truthy_runId_of truthyInt_Some, simp add: truthyInt_def)
  show ?thesis
    unfolding c[symmetric]
    by (auto simp: processBody_def split: sum.splits option.splits prod.splits)
qed


section \<open>C1: a status in the payload and a terminal call\<close>

text \<open>
  C1, as claimed: a callback that names a status for a call that is already COMPLETED, FAILED or
  CANCELED leaves the status alone. The handler has no such guard. The call \<open>c1\<close> is COMPLETED;
  the callback \<open>{run_id: "run_1", status: "failed"}\<close> is answered with ok and the stored
  status is FAILED afterwards.
\<close>

theorem C1_counterexample:
  "findCallById exStore ''c1'' = Some exCallDone \<and> status exCallDone = COMPLETED \<and>
   status_of exFailed = Some FAILED \<and>
   fst (POST exEnv (request exFailed) exStore) = Ok \<and>
   map_option status (findCallById (snd (POST exEnv (request exFailed) exStore)) ''c1'') = Some FAILED"
  by code_simp

text \<open>
  C1, amended: whenever the callback is answered with ok and its payload carries a recognized
  status, the merged call is stored with exactly that status, whatever its status was before
  (terminal or not), and its contact timestamp is the handler's now.
\<close>

theorem C1_status_follows_payload:
  assumes "processBody env b s = (Ok, s')" and "status_of b = Some st"
  shows "\<exists>u. callbackTx env b s = Inr (Some u, s') \<and> findCallById s' (call_id u) = Some u \<and>
             status u = st \<and> contactedAt u = Some (now env)"
proof -
  from processBody_Ok[OF assms(1)] obtain u where tx: "callbackTx env b s = Inr (Some u, s')" ..
  from callbackTx_updated[OF tx] obtain e e0 where
    "u = applyCallData (now env) (callData env b e) e0" "findCallById s' (call_id u) = Some u"
    by blast
  with tx assms(2) show ?thesis
    by (auto simp: applyCallData_callData keep_def)
qed

text \<open>C1, amended, at the late \<open>failed\<close> callback for the completed call \<open>c1\<close>.\<close>

theorem C1_witness:
  "\<exists>u. callbackTx exEnv exFailed exStore = Inr (Some u, snd (processBody exEnv exFailed exStore)) \<and>
       findCallById (snd (processBody exEnv exFailed exStore)) (call_id u) = Some u \<and>
       status u = FAILED \<and> contactedAt u = Some 200"
proof -
  have "status_of exFailed = Some FAILED" by code_simp
  from C1_status_follows_payload[OF ex_failed_run this] show ?thesis
    by (simp add: exEnv_def)
qed

section \<open>C2: the completed-at timestamp\<close>

text \<open>
  C2, as claimed: once completed-at is set, no later merge changes it. The handler writes
  completed-at whenever the payload's status is terminal and never looks at the stored value.
  The call \<open>c1\<close> was completed at 100; a second \<open>completed\<close> callback handled at 200 is
  answered with ok and moves completed-at to 200.
\<close>

theorem C2_counterexample:
  "findCallById exStore ''c1'' = Some exCallDone \<and> completedAt exCallDone = Some 100 \<and>
   fst (POST exEnv (request exCompleted) exStore) = Ok \<and>
   map_option completedAt (findCallById (snd (POST exEnv (request exCompleted) exStore)) ''c1'')
     = Some (Some 200)"
  by code_simp

text \<open>
  C2, amended: completed-at follows the payload, not the stored value. A callback answered with
  ok whose payload status is COMPLETED, FAILED or CANCELED stores the merged call with
  completed-at equal to the handler's now, whether or not it was set before; a callback whose
  payload status is absent, unrecognized, PENDING or RUNNING leaves the completed-at of every
  stored call as it was.
\<close>

theorem C2_completedAt_follows_payload:
  assumes "processBody env b s = (r, s')"
  shows "(terminalStatus (status_of b) \<and> r = Ok \<longrightarrow>
            (\<exists>u. callbackTx env b s = Inr (Some u, s') \<and> findCallById s' (call_id u) = Some u \<and>
                 completedAt u = Some (now env))) \<and>
         (\<not> terminalStatus (status_of b) \<longrightarrow>
            (\<forall>i c. findCallById s i = Some c \<longrightarrow>
               (\<exists>c'. findCallById s' i = Some c' \<and> completedAt c' = completedAt c)))"
proof (intro conjI impI allI)
  assume "terminalStatus (status_of b) \<and> r = Ok"
  then have t: "terminalStatus (status_of b)" and "r = Ok" by auto
  with assms obtain u where tx: "callbackTx env b s = Inr (Some u, s')"
    using processBody_Ok by blast
  from callbackTx_updated[OF tx] obtain e e0 where
    "u = applyCallData (now env) (callData env b e) e0" "findCallById s' (call_id u) = Some u"
    by blast
  with tx t show "\<exists>u. callbackTx env b s = Inr (Some u, s') \<and>
      findCallById s' (call_id u) = Some u \<and> completedAt u = Some (now env)"
    by (auto simp: applyCallData_callData)
next
  fix i c
  assume nt: "\<not> terminalStatus (status_of b)" and c: "findCallById s i = Some c"
  from processBody_call_frame[OF assms c] nt
  show "\<exists>c'. findCallById s' i = Some c' \<and> completedAt c' = completedAt c"
    by (auto simp: applyCallData_callData)
qed

text \<open>
  C2, amended, at a repeated \<open>completed\<close> callback and at a \<open>running\<close> callback for the
  call \<open>c1\<close> completed at 100.
\<close>

theorem C2_witness:
  "(\<exists>u. callbackTx exEnv exCompleted exStore = Inr (Some u, snd (processBody exEnv exCompleted exStore)) \<and>
        findCallById (snd (processBody exEnv exCompleted exStore)) (call_id u) = Some u \<and>
        completedAt u = Some 200) \<and>
   (\<exists>c'. findCallById (snd (processBody exEnv exRunning exStore)) ''c1'' = Some c' \<and>
        completedAt c' = Some 100)"
proof -
  have now: "now exEnv = 200" by (simp add: exEnv_def)
  have c1: "findCallById exStore ''c1'' = Some exCallDone" by code_simp
  have at: "completedAt exCallDone = Some 100" by (simp add: exCallDone_def)
  from C2_completedAt_follows_payload[OF ex_completed_run] ex_completed_terminal
  have A: "\<exists>u. callbackTx exEnv exCompleted exStore =
               Inr (Some u, snd (processBody exEnv exCompleted exStore)) \<and>
             findCallById (snd (processBody exEnv exCompleted exStore)) (call_id u) = Some u \<and>
             completedAt u = Some (now exEnv)"
    by blast
  have "processBody exEnv exRunning exStore =
          (fst (processBody exEnv exRunning exStore), snd (processBody exEnv exRunning exStore))"
    by simp
  from C2_completedAt_follows_payload[OF this] ex_running_not_terminal c1
  have B: "\<exists>c'. findCallById (snd (processBody exEnv exRunning exStore)) ''c1'' = Some c' \<and>
             completedAt c' = completedAt exCallDone"
    by blast
  from A B show ?thesis by (simp add: now at)
qed


section \<open>C3: the run identifier\<close>

text \<open>
  C3, as claimed: a stored run identifier that is not null is never overwritten. The handler
  tests the stored value with \<open>!existing.runId\<close>, which also holds of the empty string. The
  call \<open>c3\<close> stores the empty string as its run identifier (not null); the callback
  \<open>{call_id: "c3", run_id: "run_2"}\<close> is answered with ok and the stored run identifier is
  \<open>run_2\<close> afterwards.
\<close>

theorem C3_counterexample:
  "findCallById exStoreEmptyRun ''c3'' = Some exCallEmptyRun \<and>
   runId exCallEmptyRun = Some [] \<and>
   fst (POST exEnv (request exRun2) exStoreEmptyRun) = Ok \<and>
   map_option runId (findCallById (snd (POST exEnv (request exRun2) exStoreEmptyRun)) ''c3'')
     = Some (Some ''run_2'')"
  by code_simp

text \<open>
  C3, amended: in a store whose call ids are unique (the primary key), a callback changes the
  run identifier of a stored call only when the stored value is null or the empty string and
  the payload supplies a run identifier, and then the payload's identifier is stored. A stored
  run identifier that is a non-empty string is never overwritten, whatever the payload carries
  and whatever the handler answers.
\<close>

theorem C3_runId_written_only_when_unset:
  assumes pk: "distinct (map call_id (calls s))"
    and run: "processBody env b s = (r, s')"
    and c: "findCallById s i = Some c"
  shows "\<exists>c'. findCallById s' i = Some c' \<and>
           (runId c' = runId c \<or>
            ((runId c = None \<or> runId c = Some []) \<and> truthyStr (runId_of b) \<and> runId c' = runId_of b))"
proof -
  from processBody_call_frame[OF run c]
  consider "findCallById s' i = Some c"
    | e where "e \<in> set (calls s)" "call_id e = i"
        "findCallById s' i = Some (applyCallData (now env) (callData env b e) c)"
    by blast
  then show ?thesis
  proof cases
    case 1
    then show ?thesis by simp
  next
    case 2
    from c have "c \<in> set (calls s)" "call_id c = i" by (auto dest: findCallById_id)
    with 2 pk have "e = c" by (auto intro: distinct_call_id)
    with 2 show ?thesis
      by (auto simp: applyCallData_callData truthyStr_def keepOpt_def split: option.splits)
  qed
qed

text \<open>
  C3, amended, at the callback \<open>{call_id: "c1", run_id: "run_2"}\<close> for the call \<open>c1\<close> that
  already has the run identifier \<open>run_1\<close>.
\<close>

theorem C3_witness:
  "\<exists>c'. findCallById (snd (processBody exEnv exOtherRun exStore)) ''c1'' = Some c' \<and>
        runId c' = Some ''run_1''"
proof -
  have pk: "distinct (map call_id (calls exStore))" by code_simp
  have c1: "findCallById exStore ''c1'' = Some exCallDone" by code_simp
  have run: "processBody exEnv exOtherRun exStore =
      (fst (processBody exEnv exOtherRun exStore), snd (processBody exEnv exOtherRun exStore))"
    by simp
  have "runId exCallDone = Some ''run_1''" by (simp add: exCallDone_def)
  with C3_runId_written_only_when_unset[OF pk run c1] show ?thesis by auto
qed


section \<open>C4: absent fields\<close>

text \<open>
  C4: whatever the handler answers, a field that the payload does not supply (its extraction
  yields no value, as it does when none of the recognised keys occurs) keeps its stored value.
  For each of the three escalation flags this holds of every stored call and of every stored
  rider; for the contact outcome likewise; for summary and transcript it holds of every stored
  call. Nothing is reset to false or null.
\<close>

theorem C4_absent_fields_keep_stored_values:
  assumes run: "processBody env b s = (r, s')"
  shows "(\<forall>i c. findCallById s i = Some c \<longrightarrow>
            (\<exists>c'. findCallById s' i = Some c' \<and>
               (urgentFlag_of b = None \<longrightarrow> urgentFlag c' = urgentFlag c) \<and>
               (legalIssueFlag_of b = None \<longrightarrow> legalIssueFlag c' = legalIssueFlag c) \<and>
               (humanRequested_of b = None \<longrightarrow> humanRequested c' = humanRequested c) \<and>
               (contactStatus_of b = None \<longrightarrow> contactStatus c' = contactStatus c) \<and>
               (summary_of b = None \<longrightarrow> summary c' = summary c) \<and>
               (transcript_of b = None \<longrightarrow> transcript c' = transcript c))) \<and>
         (\<forall>i x. findRiderById s i = Some x \<longrightarrow>
            (\<exists>x'. findRiderById s' i = Some x' \<and>
               (urgentFlag_of b = None \<longrightarrow> rider_urgentFlag x' = rider_urgentFlag x) \<and>
               (legalIssueFlag_of b = None \<longrightarrow> rider_legalIssueFlag x' = rider_legalIssueFlag x) \<and>
               (humanRequested_of b = None \<longrightarrow> rider_humanRequested x' = rider_humanRequested x) \<and>
               (contactStatus_of b = None \<longrightarrow> lastContactStatus x' = lastContactStatus x)))"
proof (intro conjI allI impI)
  fix i c
  assume c: "findCallById s i = Some c"
  from processBody_call_frame[OF run c]
  consider "findCallById s' i = Some c"
    | e where "findCallById s' i = Some (applyCallData (now env) (callData env b e) c)"
    by blast
  then show "\<exists>c'. findCallById s' i = Some c' \<and>
               (urgentFlag_of b = None \<longrightarrow> urgentFlag c' = urgentFlag c) \<and>
               (legalIssueFlag_of b = None \<longrightarrow> legalIssueFlag c' = legalIssueFlag c) \<and>
               (humanRequested_of b = None \<longrightarrow> humanRequested c' = humanRequested c) \<and>
               (contactStatus_of b = None \<longrightarrow> contactStatus c' = contactStatus c) \<and>
               (summary_of b = None \<longrightarrow> summary c' = summary c) \<and>
               (transcript_of b = None \<longrightarrow> transcript c' = transcript c)"
  proof cases
    case 1
    then show ?thesis by simp
  next
    case 2
    then show ?thesis
      by (simp add: applyCallData_callData keep_def keepOpt_def ifTruthy_def truthyStr_def)
  qed
next
  fix i x
  assume x: "findRiderById s i = Some x"
  from processBody_rider_frame[OF run x]
  consider "findRiderById s' i = Some x"
    | "findRiderById s' i = Some (applyRiderData (now env) (riderData env b) x)"
    by blast
  then show "\<exists>x'. findRiderById s' i = Some x' \<and>
               (urgentFlag_of b = None \<longrightarrow> rider_urgentFlag x' = rider_urgentFlag x) \<and>
               (legalIssueFlag_of b = None \<longrightarrow> rider_legalIssueFlag x' = rider_legalIssueFlag x) \<and>
               (humanRequested_of b = None \<longrightarrow> rider_humanRequested x' = rider_humanRequested x) \<and>
               (contactStatus_of b = None \<longrightarrow> lastContactStatus x' = lastContactStatus x)"
  proof cases
    case 1
    then show ?thesis by simp
  next
    case 2
    then show ?thesis
      by (simp add: applyRiderData_riderData keep_def keepOpt_def)
  qed
qed

text \<open>
  C4 at the callback \<open>{run_id: "run_1", status: "failed"}\<close>, which supplies none of these
  fields: the call \<open>c1\<close> and the rider \<open>r1\<close> keep their urgent flag, outcome and summary.
\<close>

theorem C4_witness:
  "fst (processBody exEnv exFailed exStore) = Ok \<and>
   (\<exists>c'. findCallById (snd (processBody exEnv exFailed exStore)) ''c1'' = Some c' \<and>
        urgentFlag c' = True \<and> legalIssueFlag c' = False \<and> humanRequested c' = False \<and>
        contactStatus c' = Some Contact_COMPLETED \<and> summary c' = Some ''ok'' \<and> transcript c' = None) \<and>
   (\<exists>x'. findRiderById (snd (processBody exEnv exFailed exStore)) ''r1'' = Some x' \<and>
        rider_urgentFlag x' = True \<and> rider_legalIssueFlag x' = False \<and>
        rider_humanRequested x' = False \<and> lastContactStatus x' = Some Contact_COMPLETED)"
proof -
  have c1: "findCallById exStore ''c1'' = Some exCallDone" by code_simp
  have r1: "findRiderById exStore ''r1'' = Some exRider" by code_simp
  note frame = C4_absent_fields_keep_stored_values[OF ex_failed_run]
  from frame c1 ex_failed_absent
  have A: "\<exists>c'. findCallById (snd (processBody exEnv exFailed exStore)) ''c1'' = Some c' \<and>
        urgentFlag c' = urgentFlag exCallDone \<and> legalIssueFlag c' = legalIssueFlag exCallDone \<and>
        humanRequested c' = humanRequested exCallDone \<and>
        contactStatus c' = contactStatus exCallDone \<and> summary c' = summary exCallDone \<and>
        transcript c' = transcript exCallDone"
    by blast
  from frame r1 ex_failed_absent
  have B: "\<exists>x'. findRiderById (snd (processBody exEnv exFailed exStore)) ''r1'' = Some x' \<and>
        rider_urgentFlag x' = rider_urgentFlag exRider \<and>
        rider_legalIssueFlag x' = rider_legalIssueFlag exRider \<and>
        rider_humanRequested x' = rider_humanRequested exRider \<and>
        lastContactStatus x' = lastContactStatus exRider"
    by blast
  have "fst (processBody exEnv exFailed exStore) = Ok" using ex_failed_run by (metis fst_conv)
  with A B show ?thesis by (simp add: exCallDone_def exRider_def)
qed


section \<open>C5: the order of resolution\<close>

text \<open>
  C5, as claimed: when the payload carries a call id that matches no call and also a run
  identifier, the call is looked up by the run identifier next. The handler chooses one lookup by
  \<open>if (riderCallId) ... else if (runId) ...\<close>: with a call id present the run identifier is
  never used. The payload \<open>{call_id: "zz", run_id: "run_1"}\<close> names no stored call id, its run
  identifier is that of the stored call \<open>c1\<close>, and the answer is not-found with the store
  unchanged.
\<close>

theorem C5_counterexample:
  "riderCallId_of exWrongId = Some ''zz'' \<and> runId_of exWrongId = Some ''run_1'' \<and>
   findCallById exStore ''zz'' = None \<and> findCallByRunId exStore ''run_1'' = Some exCallDone \<and>
   POST exEnv (request exWrongId) exStore = (CallNotFound, exStore)"
  by code_simp

text \<open>
  C5, amended: the resolver makes one unique lookup, by the call id when the payload carries
  one and by the run identifier only when it carries no call id. For an identifier that the
  database takes (a text without the character U+0000), a call found that way is the resolved
  call; when that lookup finds nothing, or the payload carries neither identifier, the resolver
  goes on to the external id if the payload carries one other than 0; otherwise nothing is
  resolved, and a payload with a call id or a run identifier is answered not-found with the
  store unchanged. For an identifier that the database does not take the lookup throws, and the
  request is answered with the internal error, the store unchanged.
\<close>

theorem C5_resolution_order:
  "(riderCallId_of b = Some i \<and> storableText i \<and> findCallById s i = Some c \<longrightarrow>
      resolveCall env b s = Inr (Some c, s)) \<and>
   (riderCallId_of b = Some i \<and> storableText i \<and> findCallById s i = None \<and>
      \<not> truthyInt (externalId_of b) \<longrightarrow>
      resolveCall env b s = Inr (None, s) \<and> processBody env b s = (CallNotFound, s)) \<and>
   (riderCallId_of b = None \<and> runId_of b = Some r \<and> storableText r \<and>
      findCallByRunId s r = Some c \<longrightarrow>
      resolveCall env b s = Inr (Some c, s)) \<and>
   (riderCallId_of b = None \<and> runId_of b = Some r \<and> storableText r \<and>
      findCallByRunId s r = None \<and> \<not> truthyInt (externalId_of b) \<longrightarrow>
      resolveCall env b s = Inr (None, s) \<and> processBody env b s = (CallNotFound, s)) \<and>
   (externalId_of b = Some v \<and> v \<noteq> Finite 0 \<and>
      (riderCallId_of b = Some i \<and> storableText i \<and> findCallById s i = None \<or>
       riderCallId_of b = None \<and> runId_of b = Some r \<and> storableText r \<and>
         findCallByRunId s r = None \<or>
       riderCallId_of b = None \<and> runId_of b = None) \<longrightarrow>
      resolveCall env b s = resolveByExternalId env b s v) \<and>
   (riderCallId_of b = Some i \<and> \<not> storableText i \<or>
    riderCallId_of b = None \<and> runId_of b = Some r \<and> \<not> storableText r \<longrightarrow>
      processBody env b s = (InternalServerError, s))"
proof (intro conjI impI)
  assume "riderCallId_of b = Some i \<and> storableText i \<and> findCallById s i = Some c"
  then show "resolveCall env b s = Inr (Some c, s)"
    by (auto intro!: resolveCall_found simp: whereOf_id)
next
  assume a: "riderCallId_of b = Some i \<and> storableText i \<and> findCallById s i = None \<and>
      \<not> truthyInt (externalId_of b)"
  then have "findUniqueCall s (whereOf b) = Inr None" by (simp add: whereOf_id)
  with a show "resolveCall env b s = Inr (None, s)" by (simp add: resolveCall_nothing)
  moreover from a have "truthyStr (riderCallId_of b)" using truthy_riderCallId_of[of b] by simp
  ultimately show "processBody env b s = (CallNotFound, s)" by (simp add: processBody_not_found)
next
  assume "riderCallId_of b = None \<and> runId_of b = Some r \<and> storableText r \<and>
      findCallByRunId s r = Some c"
  then show "resolveCall env b s = Inr (Some c, s)"
    by (auto intro!: resolveCall_found simp: whereOf_run)
next
  assume a: "riderCallId_of b = None \<and> runId_of b = Some r \<and> storableText r \<and>
      findCallByRunId s r = None \<and> \<not> truthyInt (externalId_of b)"
  then have "findUniqueCall s (whereOf b) = Inr None" by (simp add: whereOf_run)
  with a show "resolveCall env b s = Inr (None, s)" by (simp add: resolveCall_nothing)
  moreover from a have "truthyStr (runId_of b)" using truthy_runId_of[of b] by simp
  ultimately show "processBody env b s = (CallNotFound, s)" by (simp add: processBody_not_found)
next
  assume a: "externalId_of b = Some v \<and> v \<noteq> Finite 0 \<and>
      (riderCallId_of b = Some i \<and> storableText i \<and> findCallById s i = None \<or>
       riderCallId_of b = None \<and> runId_of b = Some r \<and> storableText r \<and>
         findCallByRunId s r = None \<or>
       riderCallId_of b = None \<and> runId_of b = None)"
  then have "findUniqueCall s (whereOf b) = Inr None"
    by (auto simp: whereOf_id whereOf_run whereOf_none)
  with a show "resolveCall env b s = resolveByExternalId env b s v"
    by (simp add: resolveCall_external truthyInt_Some)
next
  assume a: "riderCallId_of b = Some i \<and> \<not> storableText i \<or>
    riderCallId_of b = None \<and> runId_of b = Some r \<and> \<not> storableText r"
  then have "findUniqueCall s (whereOf b) = Inl InvalidArgument"
    by (auto simp: whereOf_id whereOf_run)
  then have "resolveCall env b s = Inl InvalidArgument" by (rule resolveCall_throws)
  moreover from a have "truthyStr (riderCallId_of b) \<or> truthyStr (runId_of b)"
    using truthy_riderCallId_of[of b] truthy_runId_of[of b] by auto
  ultimately show "processBody env b s = (InternalServerError, s)"
    by (auto intro: processBody_throws)
qed

text \<open>
  C5, amended, on the store with the call \<open>c1\<close> of run \<open>run_1\<close>: a matching call id beside
  another run identifier, an unknown call id beside the matching run identifier, a run identifier
  alone, an external id alone, and a call id with the character U+0000.
\<close>

theorem C5_witness:
  "resolveCall exEnv exOtherRun exStore = Inr (Some exCallDone, exStore) \<and>
   resolveCall exEnv exWrongId exStore = Inr (None, exStore) \<and>
   processBody exEnv exWrongId exStore = (CallNotFound, exStore) \<and>
   resolveCall exEnv exFailed exStore = Inr (Some exCallDone, exStore) \<and>
   resolveCall exEnv exContext42 exStore = resolveByExternalId exEnv exContext42 exStore (Finite 42) \<and>
   processBody exEnv exNulId exStore = (InternalServerError, exStore)"
proof -
  have 1: "riderCallId_of exOtherRun = Some ''c1''" "findCallById exStore ''c1'' = Some exCallDone"
    "storableText ''c1''"
    by code_simp+
  have 2: "riderCallId_of exWrongId = Some ''zz''" "findCallById exStore ''zz'' = None"
    "\<not> truthyInt (externalId_of exWrongId)" "storableText ''zz''"
    by code_simp+
  have 3: "riderCallId_of exFailed = None" "runId_of exFailed = Some ''run_1''"
    "findCallByRunId exStore ''run_1'' = Some exCallDone" "storableText ''run_1''"
    by code_simp+
  have 4: "externalId_of exContext42 = Some (Finite 42)" "riderCallId_of exContext42 = None"
    "runId_of exContext42 = None"
    by code_simp+
  have 5: "riderCallId_of exNulId = Some [CHR ''z'', CHR 0x00]"
    "\<not> storableText [CHR ''z'', CHR 0x00]"
    by code_simp+
  from C5_resolution_order[of exOtherRun "''c1''" exStore exCallDone exEnv] 1
  have A: "resolveCall exEnv exOtherRun exStore = Inr (Some exCallDone, exStore)" by simp
  from C5_resolution_order[of exWrongId "''zz''" exStore _ exEnv] 2
  have B: "resolveCall exEnv exWrongId exStore = Inr (None, exStore) \<and>
           processBody exEnv exWrongId exStore = (CallNotFound, exStore)" by simp
  from C5_resolution_order[of exFailed _ exStore exCallDone exEnv "''run_1''"] 3
  have C: "resolveCall exEnv exFailed exStore = Inr (Some exCallDone, exStore)" by simp
  from C5_resolution_order[of exContext42 _ exStore _ exEnv _ "Finite 42"] 4
  have D: "resolveCall exEnv exContext42 exStore =
           resolveByExternalId exEnv exContext42 exStore (Finite 42)"
    by simp
  from C5_resolution_order[of exNulId "[CHR ''z'', CHR 0x00]" exStore _ exEnv] 5
  have E: "processBody exEnv exNulId exStore = (InternalServerError, exStore)" by simp
  from A B C D E show ?thesis by simp
qed

section \<open>C6: the projection on the rider\<close>

text \<open>
  C6, as claimed: after callback processing the rider's flags equal those of its most recently
  updated call. The rider \<open>r1\<close> has the calls \<open>c1\<close> and \<open>c2\<close>, all flags false. The callback
  \<open>{run_id: "run_1", status: "completed", summary: "ok", urgent_flag: true}\<close> handled at 200
  and then \<open>{run_id: "run_2", status: "completed"}\<close> handled at 300 are both answered with ok.
  Afterwards the most recently updated call is \<open>c2\<close>, whose urgent flag is false, while the
  rider's urgent flag is true.
\<close>

theorem C6_counterexample:
  "fst (POST exEnv (request exScenarioB) exStoreTwo) = Ok \<and>
   fst (POST exEnv300 (request exSecond) exAfterFirst) = Ok \<and>
   map_option call_id (mostRecentlyUpdatedCall exAfterSecond ''r1'') = Some ''c2'' \<and>
   map_option urgentFlag (mostRecentlyUpdatedCall exAfterSecond ''r1'') = Some False \<and>
   map_option rider_urgentFlag (findRiderById exAfterSecond ''r1'') = Some True"
  by code_simp

text \<open>
  C6, amended: every callback answered with ok stores, in the same transaction, the merged call
  and its rider with the contact timestamp equal to the handler's now, also when the payload
  supplies no outcome field; and for the contact outcome and each escalation flag that the
  payload supplies, the rider's projection and the merged call both hold the supplied value.
  (A field the payload does not supply is left as stored on both, see C4, so the two need not
  agree on it.)
\<close>

theorem C6_projection_follows_payload:
  assumes "processBody env b s = (Ok, s')"
  shows "\<exists>u x. callbackTx env b s = Inr (Some u, s') \<and>
           findCallById s' (call_id u) = Some u \<and>
           findRiderById s' (riderId u) = Some x \<and>
           lastContactAt x = Some (now env) \<and> contactedAt u = Some (now env) \<and>
           (\<forall>v. contactStatus_of b = Some v \<longrightarrow> lastContactStatus x = Some v \<and> contactStatus u = Some v) \<and>
           (\<forall>v. urgentFlag_of b = Some v \<longrightarrow> rider_urgentFlag x = v \<and> urgentFlag u = v) \<and>
           (\<forall>v. legalIssueFlag_of b = Some v \<longrightarrow> rider_legalIssueFlag x = v \<and> legalIssueFlag u = v) \<and>
           (\<forall>v. humanRequested_of b = Some v \<longrightarrow> rider_humanRequested x = v \<and> humanRequested u = v)"
proof -
  from processBody_Ok[OF assms] obtain u where tx: "callbackTx env b s = Inr (Some u, s')" ..
  from callbackTx_updated[OF tx] obtain e e0 r0 where
    u: "u = applyCallData (now env) (callData env b e) e0" and
    fc: "findCallById s' (call_id u) = Some u" and
    fr: "findRiderById s' (riderId u) = Some (applyRiderData (now env) (riderData env b) r0)"
    by blast
  let ?x = "applyRiderData (now env) (riderData env b) r0"
  have "lastContactAt ?x = Some (now env)" "contactedAt u = Some (now env)"
    "\<forall>v. contactStatus_of b = Some v \<longrightarrow> lastContactStatus ?x = Some v \<and> contactStatus u = Some v"
    "\<forall>v. urgentFlag_of b = Some v \<longrightarrow> rider_urgentFlag ?x = v \<and> urgentFlag u = v"
    "\<forall>v. legalIssueFlag_of b = Some v \<longrightarrow> rider_legalIssueFlag ?x = v \<and> legalIssueFlag u = v"
    "\<forall>v. humanRequested_of b = Some v \<longrightarrow> rider_humanRequested ?x = v \<and> humanRequested u = v"
    by (simp_all add: u applyCallData_callData applyRiderData_riderData keep_def keepOpt_def)
  with tx fc fr show ?thesis by blast
qed

text \<open>C6, amended, at the first of the two callbacks above.\<close>

theorem C6_witness:
  "\<exists>u x. callbackTx exEnv exScenarioB exStoreTwo =
            Inr (Some u, snd (processBody exEnv exScenarioB exStoreTwo)) \<and>
         findCallById (snd (processBody exEnv exScenarioB exStoreTwo)) (call_id u) = Some u \<and>
         findRiderById (snd (processBody exEnv exScenarioB exStoreTwo)) (riderId u) = Some x \<and>
         lastContactAt x = Some 200 \<and> contactedAt u = Some 200 \<and>
         rider_urgentFlag x = True \<and> urgentFlag u = True"
proof -
  have now: "now exEnv = 200" by (simp add: exEnv_def)
  from C6_projection_follows_payload[OF ex_scenarioB_run] obtain u x where
    "callbackTx exEnv exScenarioB exStoreTwo =
       Inr (Some u, snd (processBody exEnv exScenarioB exStoreTwo))"
    "findCallById (snd (processBody exEnv exScenarioB exStoreTwo)) (call_id u) = Some u"
    "findRiderById (snd (processBody exEnv exScenarioB exStoreTwo)) (riderId u) = Some x"
    "lastContactAt x = Some (now exEnv)" "contactedAt u = Some (now exEnv)"
    "\<forall>v. urgentFlag_of exScenarioB = Some v \<longrightarrow> rider_urgentFlag x = v \<and> urgentFlag u = v"
    by blast
  with ex_scenarioB_fields now show ?thesis by auto
qed


section \<open>C7: an external id without a rider\<close>

text \<open>
  C7, as claimed: a payload whose only correlation key is a numeric external id of no rider is
  answered not-found. The payload \<open>{context: "0"}\<close> carries the external id 0 and nothing
  else, no rider has the external id 0, and the answer is the missing-correlation-id rejection.
  The payload \<open>{external_id: 2147483648}\<close> carries an external id that no rider has and that
  the 32-bit column does not take: the lookup throws and the answer is the internal error. The
  store is unchanged both times.
\<close>

theorem C7_counterexample:
  "riderCallId_of exContextZero = None \<and> runId_of exContextZero = None \<and>
   externalId_of exContextZero = Some (Finite 0) \<and> findRiderByExternalId exStore 0 = None \<and>
   POST exEnv (request exContextZero) exStore = (MissingCorrelationId, exStore) \<and>
   riderCallId_of exExternalBig = None \<and> runId_of exExternalBig = None \<and>
   externalId_of exExternalBig = Some (Finite 2147483648) \<and>
   findRiderByExternalId exStore 2147483648 = None \<and>
   POST exEnv (request exExternalBig) exStore = (InternalServerError, exStore)"
  by code_simp

text \<open>
  C7, amended: a payload that carries no call id and no run identifier, and whose external id is
  a number other than 0, within the signed 32-bit range of the column, that no rider has, is
  answered not-found, and the store after the request is the store before it: no rider and no
  call is created or changed. This holds of the handling of the payload and of every request
  that passes the secret check with that payload as its body.
\<close>

theorem C7_unknown_external_id_not_found:
  assumes "riderCallId_of b = None" and "runId_of b = None"
    and "externalId_of b = Some (Finite n)" and "n \<noteq> 0" and "inInt4 n"
    and "findRiderByExternalId s n = None"
  shows "processBody env b s = (CallNotFound, s) \<and>
         (\<forall>req. authorized env req \<and> body req = Some b \<longrightarrow> POST env req s = (CallNotFound, s))"
proof -
  from assms have "findUniqueCall s (whereOf b) = Inr None" by (simp add: whereOf_none)
  with assms have "resolveCall env b s = resolveByExternalId env b s (Finite n)"
    by (simp add: resolveCall_external truthyInt_Some)
  with assms have "resolveCall env b s = Inr (None, s)"
    by (simp add: resolveByExternalId_def rider_findUnique_def)
  moreover from assms have "truthyInt (externalId_of b)" by (simp add: truthyInt_def)
  ultimately have pb: "processBody env b s = (CallNotFound, s)" by (simp add: processBody_not_found)
  from externalId_of_object[OF assms(3)] have "truthy b \<and> typeofObject (Some b)" .
  with pb show ?thesis by (auto simp: POST_processBody)
qed

text \<open>C7, amended, at the payload \<open>{context: "999"}\<close> sent to the open endpoint.\<close>

theorem C7_witness:
  "processBody exEnv exContext999 exStore = (CallNotFound, exStore) \<and>
   POST exEnv (request exContext999) exStore = (CallNotFound, exStore)"
proof -
  have h: "riderCallId_of exContext999 = None" "runId_of exContext999 = None"
    "externalId_of exContext999 = Some (Finite 999)" "999 \<noteq> (0::int)" "inInt4 999"
    "findRiderByExternalId exStore 999 = None"
    by code_simp+
  have a: "authorized exEnv (request exContext999)" "body (request exContext999) = Some exContext999"
    by (simp_all add: authorized_def exEnv_def request_def truthyStr_def)
  from C7_unknown_external_id_not_found[OF h, of exEnv] a show ?thesis by blast
qed


section \<open>C8: the first call of a rider\<close>

text \<open>
  C8, as claimed: for every payload whose only correlation key is an external id of a rider
  without calls, a call is created. The payload with \<open>context: "42"\<close> and a summary
  made of \<open>a\<close>, the character U+0000 and \<open>b\<close> names the rider of external id 42, who has
  no call; its summary holds the character U+0000,
  which the database does not take, so the create throws, the answer is the internal error and
  no call is created.
\<close>

theorem C8_counterexample:
  "riderCallId_of exContext42Nul = None \<and> runId_of exContext42Nul = None \<and>
   externalId_of exContext42Nul = Some (Finite 42) \<and>
   findRiderByExternalId exStoreNoCalls 42 = Some exRider \<and> calls exStoreNoCalls = [] \<and>
   POST exEnv (request exContext42Nul) exStoreNoCalls = (InternalServerError, exStoreNoCalls)"
  by code_simp

text \<open>
  C8, amended: let the payload carry no call id and no run identifier, and an external id other
  than 0 within the signed 32-bit range; let a stored rider have that external id and no call;
  let the payload's summary and transcript (and the ISO rendering of the clock) be text the
  database takes, without the character U+0000; and let the id the database assigns be new.
  Then the resolver creates one call for that rider, and the row it creates holds the payload's
  normalized status or else COMPLETED, the payload's normalized contact outcome or else
  COMPLETED, the handler's now as contact timestamp, the payload's summary and transcript, the
  payload's flags or else false, no run identifier and no completed-at. The request is answered
  with ok, and the store then holds exactly that one call more, with the same status and
  outcome after the merge.
\<close>

theorem C8_first_call_created:
  assumes ids: "riderCallId_of b = None" "runId_of b = None" "externalId_of b = Some (Finite n)"
    and n: "n \<noteq> 0" "inInt4 n"
    and rider: "findRiderByExternalId s n = Some x"
    and nocalls: "\<forall>c \<in> set (calls s). riderId c \<noteq> rider_id x"
    and fresh: "\<forall>c \<in> set (calls s). call_id c \<noteq> newId env"
    and stor: "storableOpt (summary_of b)" "storableOpt (transcript_of b)" "storableText (nowIso env)"
  shows "\<exists>c0 u s'.
           resolveCall env b s = Inr (Some c0, s\<lparr>calls := calls s @ [c0]\<rparr>) \<and>
           call_id c0 = newId env \<and> riderId c0 = rider_id x \<and> runId c0 = None \<and>
           status c0 = (case status_of b of None \<Rightarrow> COMPLETED | Some st \<Rightarrow> st) \<and>
           contactStatus c0 =
             Some (case contactStatus_of b of None \<Rightarrow> Contact_COMPLETED | Some v \<Rightarrow> v) \<and>
           contactedAt c0 = Some (now env) \<and>
           summary c0 = summary_of b \<and> transcript c0 = transcript_of b \<and>
           urgentFlag c0 = (case urgentFlag_of b of None \<Rightarrow> False | Some v \<Rightarrow> v) \<and>
           legalIssueFlag c0 = (case legalIssueFlag_of b of None \<Rightarrow> False | Some v \<Rightarrow> v) \<and>
           humanRequested c0 = (case humanRequested_of b of None \<Rightarrow> False | Some v \<Rightarrow> v) \<and>
           metadata c0 = JObj [(''source'', JStr ''callback_external_id''),
                               (''externalId'', JNum (of_int n))] \<and>
           completedAt c0 = None \<and>
           processBody env b s = (Ok, s') \<and>
           (\<forall>req. authorized env req \<and> body req = Some b \<longrightarrow> POST env req s = (Ok, s')) \<and>
           calls s' = calls s @ [u] \<and>
           call_id u = newId env \<and> riderId u = rider_id x \<and>
           status u = status c0 \<and> contactStatus u = contactStatus c0 \<and>
           contactedAt u = Some (now env)"
proof -
  let ?nc = "newCall env b x (Finite n)"
  let ?s1 = "s\<lparr>calls := calls s @ [?nc]\<rparr>"
  let ?d = "callData env b ?nc"
  let ?u = "applyCallData (now env) ?d ?nc"
  let ?s2 = "?s1\<lparr>calls := calls s @ [?u]\<rparr>"
  from rider have xin: "x \<in> set (riders s)" "externalId x = Some n"
    by (auto simp: findRiderByExternalId_def dest: find_Some_mem)
  from xin obtain x0 where x0: "findRiderById s (rider_id x) = Some x0"
    by (cases "findRiderById s (rider_id x)") (auto simp: findRiderById_def find_None_iff')
  from ids have "findUniqueCall s (whereOf b) = Inr None" by (simp add: whereOf_none)
  with ids n have r1: "resolveCall env b s = resolveByExternalId env b s (Finite n)"
    by (simp add: resolveCall_external truthyInt_Some)
  from nocalls have none: "findFirstCall s (openCall (rider_id x)) = None"
    "findFirstCall s (\<lambda>c. riderId c = rider_id x) = None"
    by (simp_all add: findFirstCall_None openCall_def)
  have nrun: "runId ?nc = None" using ids by (simp add: newCall_def ifTruthy_def truthyStr_def)
  have ntext: "storableOpt (summary ?nc)" "storableOpt (transcript ?nc)" "storableJson (metadata ?nc)"
    using stor by (simp_all add: newCall_def storableText_literals)
  from fresh x0 nrun ntext have cr: "riderCall_create s ?nc = Inr (?nc, ?s1)"
    by (simp add: riderCall_create_def storableOpt_def)
  from rider n none cr have r2: "resolveByExternalId env b s (Finite n) = Inr (Some ?nc, ?s1)"
    by (simp add: resolveByExternalId_def rider_findUnique_def orEnum_def)
  from fresh have f1: "findCallById ?s1 (call_id ?nc) = Some ?nc"
    by (intro findCallById_fresh_append) simp
  have drun: "data_runId ?d = None" using ids by (simp add: callData_def truthyStr_def)
  have dtext: "storableOpt (data_summary ?d)" "storableOpt (data_transcript ?d)"
    "data_metadata ?d = Some (mergedMetadata env b ?nc)"
    using stor by (simp_all add: callData_def)
  have dmeta: "storableJson (mergedMetadata env b ?nc)"
    using stor ids by (intro mergedMetadata_newCall_storable)
  from fresh have m: "map (\<lambda>e. if call_id e = call_id ?nc then applyCallData (now env) ?d e else e)
      (calls s @ [?nc]) = calls s @ [?u]"
    by (intro map_update_fresh_append) simp
  from f1 drun dtext dmeta m have up: "riderCall_update (now env) ?s1 (call_id ?nc) ?d = Inr (?u, ?s2)"
    by (simp add: riderCall_update_def storableOpt_def)
  from x0 have "findRiderById ?s2 (riderId ?u) = Some x0"
    by (simp add: findRiderById_def)
  then obtain r s3 where ru: "rider_update (now env) ?s2 (riderId ?u) (riderData env b) = Inr (r, s3)"
    and cs3: "calls s3 = calls ?s2"
    by (simp add: rider_update_def)
  from up ru have "mergeResult env b ?s1 ?nc = Inr (Some ?u, s3)"
    by (simp add: mergeResult_def)
  with r1 r2 have "callbackTx env b s = Inr (Some ?u, s3)"
    by (simp add: callbackTx_def)
  moreover from ids n have "truthyInt (externalId_of b)" by (simp add: truthyInt_def)
  ultimately have pb: "processBody env b s = (Ok, s3)"
    by (simp add: processBody_def)
  from externalId_of_object[OF ids(3)] have "truthy b \<and> typeofObject (Some b)" .
  with pb have post: "\<forall>req. authorized env req \<and> body req = Some b \<longrightarrow> POST env req s = (Ok, s3)"
    by (auto simp: POST_processBody)
  have created: "call_id ?nc = newId env" "riderId ?nc = rider_id x"
    "status ?nc = (case status_of b of None \<Rightarrow> COMPLETED | Some st \<Rightarrow> st)"
    "contactStatus ?nc = Some (case contactStatus_of b of None \<Rightarrow> Contact_COMPLETED | Some v \<Rightarrow> v)"
    "contactedAt ?nc = Some (now env)"
    "summary ?nc = summary_of b" "transcript ?nc = transcript_of b"
    "urgentFlag ?nc = (case urgentFlag_of b of None \<Rightarrow> False | Some v \<Rightarrow> v)"
    "legalIssueFlag ?nc = (case legalIssueFlag_of b of None \<Rightarrow> False | Some v \<Rightarrow> v)"
    "humanRequested ?nc = (case humanRequested_of b of None \<Rightarrow> False | Some v \<Rightarrow> v)"
    "metadata ?nc = JObj [(''source'', JStr ''callback_external_id''),
                          (''externalId'', JNum (of_int n))]"
    "completedAt ?nc = None"
    by (simp_all add: newCall_def)
  have merged: "status ?u = status ?nc" "contactStatus ?u = contactStatus ?nc"
    "contactedAt ?u = Some (now env)"
    by (simp_all add: applyCallData_callData keep_def keepOpt_def created split: option.splits)
  from r1 r2 have rc: "resolveCall env b s = Inr (Some ?nc, s\<lparr>calls := calls s @ [?nc]\<rparr>)" by simp
  show ?thesis
    apply (rule exI[of _ ?nc], rule exI[of _ ?u], rule exI[of _ s3])
    using rc created nrun pb post cs3 merged by simp
qed

text \<open>
  C8, amended, for the rider \<open>r1\<close> of external id 42 with no call: at a payload that supplies
  status, outcome, summary, transcript and the urgent flag, and at \<open>{context: "42"}\<close>.
\<close>

theorem C8_witness:
  "(\<exists>c0 u s'.
      resolveCall exEnv exContext42Full exStoreNoCalls = Inr (Some c0, exStoreNoCalls\<lparr>calls := [c0]\<rparr>) \<and>
      call_id c0 = ''c9'' \<and> riderId c0 = ''r1'' \<and> status c0 = FAILED \<and>
      contactStatus c0 = Some Contact_VOICEMAIL \<and> contactedAt c0 = Some 200 \<and>
      summary c0 = Some ''left a message'' \<and> transcript c0 = Some ''hello'' \<and>
      urgentFlag c0 = True \<and> legalIssueFlag c0 = False \<and> humanRequested c0 = False \<and>
      POST exEnv (request exContext42Full) exStoreNoCalls = (Ok, s') \<and> calls s' = [u] \<and>
      call_id u = ''c9'' \<and> riderId u = ''r1'' \<and> status u = FAILED \<and>
      contactStatus u = Some Contact_VOICEMAIL \<and> contactedAt u = Some 200) \<and>
   (\<exists>c0 u s'.
      resolveCall exEnv exContext42 exStoreNoCalls = Inr (Some c0, exStoreNoCalls\<lparr>calls := [c0]\<rparr>) \<and>
      status c0 = COMPLETED \<and> contactStatus c0 = Some Contact_COMPLETED \<and>
      contactedAt c0 = Some 200 \<and> summary c0 = None \<and> urgentFlag c0 = False \<and>
      POST exEnv (request exContext42) exStoreNoCalls = (Ok, s') \<and> calls s' = [u] \<and>
      status u = COMPLETED \<and> contactStatus u = Some Contact_COMPLETED \<and>
      contactedAt u = Some 200)"
proof -
  have rider: "findRiderByExternalId exStoreNoCalls 42 = Some exRider" by code_simp
  have n: "42 \<noteq> (0::int)" "inInt4 42" by code_simp+
  have empty: "calls exStoreNoCalls = []" by (simp add: exStoreNoCalls_def)
  have nc: "\<forall>c \<in> set (calls exStoreNoCalls). riderId c \<noteq> rider_id exRider"
    and fr: "\<forall>c \<in> set (calls exStoreNoCalls). call_id c \<noteq> newId exEnv"
    by (simp_all add: empty)
  have env: "now exEnv = 200" "newId exEnv = ''c9''"
    by (simp_all add: exEnv_def)
  have iso: "storableText (nowIso exEnv)"
    by (simp add: exEnv_def storableText_def)
  have rid: "rider_id exRider = ''r1''" by (simp add: exRider_def)
  have idsF: "riderCallId_of exContext42Full = None" "runId_of exContext42Full = None"
    "externalId_of exContext42Full = Some (Finite 42)"
    by code_simp+
  have valF: "status_of exContext42Full = Some FAILED"
    "contactStatus_of exContext42Full = Some Contact_VOICEMAIL"
    "summary_of exContext42Full = Some ''left a message''"
    "transcript_of exContext42Full = Some ''hello''"
    "urgentFlag_of exContext42Full = Some True" "legalIssueFlag_of exContext42Full = None"
    "humanRequested_of exContext42Full = None"
    by code_simp+
  have storF: "storableOpt (summary_of exContext42Full)" "storableOpt (transcript_of exContext42Full)"
    by (simp_all add: valF storableOpt_def storableText_def)
  have ids: "riderCallId_of exContext42 = None" "runId_of exContext42 = None"
    "externalId_of exContext42 = Some (Finite 42)"
    by code_simp+
  have val: "status_of exContext42 = None" "contactStatus_of exContext42 = None"
    "summary_of exContext42 = None" "transcript_of exContext42 = None"
    "urgentFlag_of exContext42 = None"
    by code_simp+
  have stor: "storableOpt (summary_of exContext42)" "storableOpt (transcript_of exContext42)"
    by (simp_all add: val storableOpt_def)
  from C8_first_call_created[OF idsF n rider nc fr storF iso]
  obtain c0 u s' where F: "resolveCall exEnv exContext42Full exStoreNoCalls = Inr (Some c0, exStoreNoCalls\<lparr>calls := calls exStoreNoCalls @ [c0]\<rparr>) \<and>
           call_id c0 = newId exEnv \<and> riderId c0 = rider_id exRider \<and> runId c0 = None \<and>
           status c0 = (case status_of exContext42Full of None \<Rightarrow> COMPLETED | Some st \<Rightarrow> st) \<and>
           contactStatus c0 =
             Some (case contactStatus_of exContext42Full of None \<Rightarrow> Contact_COMPLETED | Some v \<Rightarrow> v) \<and>
           contactedAt c0 = Some (now exEnv) \<and>
           summary c0 = summary_of exContext42Full \<and> transcript c0 = transcript_of exContext42Full \<and>
           urgentFlag c0 = (case urgentFlag_of exContext42Full of None \<Rightarrow> False | Some v \<Rightarrow> v) \<and>
           legalIssueFlag c0 = (case legalIssueFlag_of exContext42Full of None \<Rightarrow> False | Some v \<Rightarrow> v) \<and>
           humanRequested c0 = (case humanRequested_of exContext42Full of None \<Rightarrow> False | Some v \<Rightarrow> v) \<and>
           metadata c0 = JObj [(''source'', JStr ''callback_external_id''),
                               (''externalId'', JNum (of_int 42))] \<and>
           completedAt c0 = None \<and>
           processBody exEnv exContext42Full exStoreNoCalls = (Ok, s') \<and>
           (\<forall>req. authorized exEnv req \<and> body req = Some exContext42Full \<longrightarrow> POST exEnv req exStoreNoCalls = (Ok, s')) \<and>
           calls s' = calls exStoreNoCalls @ [u] \<and>
           call_id u = newId exEnv \<and> riderId u = rider_id exRider \<and>
           status u = status c0 \<and> contactStatus u = contactStatus c0 \<and>
           contactedAt u = Some (now exEnv)"
    by (elim exE) (rule that)
  from F ex_open_request[of exContext42Full]
  have postF: "POST exEnv (request exContext42Full) exStoreNoCalls = (Ok, s')" by blast
  from C8_first_call_created[OF ids n rider nc fr stor iso]
  obtain d0 v t' where D: "resolveCall exEnv exContext42 exStoreNoCalls = Inr (Some d0, exStoreNoCalls\<lparr>calls := calls exStoreNoCalls @ [d0]\<rparr>) \<and>
           call_id d0 = newId exEnv \<and> riderId d0 = rider_id exRider \<and> runId d0 = None \<and>
           status d0 = (case status_of exContext42 of None \<Rightarrow> COMPLETED | Some st \<Rightarrow> st) \<and>
           contactStatus d0 =
             Some (case contactStatus_of exContext42 of None \<Rightarrow> Contact_COMPLETED | Some v \<Rightarrow> v) \<and>
           contactedAt d0 = Some (now exEnv) \<and>
           summary d0 = summary_of exContext42 \<and> transcript d0 = transcript_of exContext42 \<and>
           urgentFlag d0 = (case urgentFlag_of exContext42 of None \<Rightarrow> False | Some v \<Rightarrow> v) \<and>
           legalIssueFlag d0 = (case legalIssueFlag_of exContext42 of None \<Rightarrow> False | Some v \<Rightarrow> v) \<and>
           humanRequested d0 = (case humanRequested_of exContext42 of None \<Rightarrow> False | Some v \<Rightarrow> v) \<and>
           metadata d0 = JObj [(''source'', JStr ''callback_external_id''),
                               (''externalId'', JNum (of_int 42))] \<and>
           completedAt d0 = None \<and>
           processBody exEnv exContext42 exStoreNoCalls = (Ok, t') \<and>
           (\<forall>req. authorized exEnv req \<and> body req = Some exContext42 \<longrightarrow> POST exEnv req exStoreNoCalls = (Ok, t')) \<and>
           calls t' = calls exStoreNoCalls @ [v] \<and>
           call_id v = newId exEnv \<and> riderId v = rider_id exRider \<and>
           status v = status d0 \<and> contactStatus v = contactStatus d0 \<and>
           contactedAt v = Some (now exEnv)"
    by (elim exE) (rule that)
  from D ex_open_request[of exContext42]
  have postD: "POST exEnv (request exContext42) exStoreNoCalls = (Ok, t')" by blast
  have A: "\<exists>c0 u s'.
      resolveCall exEnv exContext42Full exStoreNoCalls = Inr (Some c0, exStoreNoCalls\<lparr>calls := [c0]\<rparr>) \<and>
      call_id c0 = ''c9'' \<and> riderId c0 = ''r1'' \<and> status c0 = FAILED \<and>
      contactStatus c0 = Some Contact_VOICEMAIL \<and> contactedAt c0 = Some 200 \<and>
      summary c0 = Some ''left a message'' \<and> transcript c0 = Some ''hello'' \<and>
      urgentFlag c0 = True \<and> legalIssueFlag c0 = False \<and> humanRequested c0 = False \<and>
      POST exEnv (request exContext42Full) exStoreNoCalls = (Ok, s') \<and> calls s' = [u] \<and>
      call_id u = ''c9'' \<and> riderId u = ''r1'' \<and> status u = FAILED \<and>
      contactStatus u = Some Contact_VOICEMAIL \<and> contactedAt u = Some 200"
    using F postF
    by (intro exI[of _ c0] exI[of _ u] exI[of _ s']) (simp add: valF env rid empty)
  have B: "\<exists>c0 u s'.
      resolveCall exEnv exContext42 exStoreNoCalls = Inr (Some c0, exStoreNoCalls\<lparr>calls := [c0]\<rparr>) \<and>
      status c0 = COMPLETED \<and> contactStatus c0 = Some Contact_COMPLETED \<and>
      contactedAt c0 = Some 200 \<and> summary c0 = None \<and> urgentFlag c0 = False \<and>
      POST exEnv (request exContext42) exStoreNoCalls = (Ok, s') \<and> calls s' = [u] \<and>
      status u = COMPLETED \<and> contactStatus u = Some Contact_COMPLETED \<and>
      contactedAt u = Some 200"
    using D postD
    by (intro exI[of _ d0] exI[of _ v] exI[of _ t']) (simp add: val env rid empty)
  from A B show ?thesis by blast
qed


section \<open>C9: the missing-correlation-id rejection\<close>

text \<open>
  C9, as claimed: a payload that carries a numeric external id, also the value 0, is not
  rejected as lacking a correlation id. The identifiers are combined with \<open>||\<close> and tested with
  \<open>!externalId\<close>, and 0 is falsy. The payload \<open>{external_id: 0}\<close> carries the external id 0
  and is rejected with the missing-correlation-id condition.
\<close>

theorem C9_counterexample:
  "asInt (getProp (Some exExternalZero) ''external_id'') = Some (Finite 0) \<and>
   POST exEnv (request exExternalZero) exStore = (MissingCorrelationId, exStore)"
  by code_simp

text \<open>
  C9, amended: a request is rejected with the missing-correlation-id condition if and only if
  it passes the secret check, its body is a JSON object or array, and the payload yields no
  call id, no run identifier and no external id other than 0. An external id of 0 counts as
  absent; with any other identifier present, resolution is attempted. (A body that is not
  JSON, or is null, a number, a string or a boolean, is rejected as an invalid payload before
  identifiers are looked for.)
\<close>

theorem C9_missing_correlation_id:
  "fst (POST env req s) = MissingCorrelationId \<longleftrightarrow>
     authorized env req \<and>
     (\<exists>b. body req = Some b \<and> truthy b \<and> typeofObject (Some b) \<and>
          riderCallId_of b = None \<and> runId_of b = None \<and>
          (externalId_of b = None \<or> externalId_of b = Some (Finite 0)))"
proof (cases "authorized env req")
  case False
  then show ?thesis by (simp add: POST_def)
next
  case True
  show ?thesis
  proof (cases "body req")
    case None
    with True show ?thesis by (simp add: POST_def)
  next
    case (Some b)
    show ?thesis
    proof (cases "truthy b \<and> typeofObject (Some b)")
      case False
      with True Some show ?thesis by (auto simp: POST_def)
    next
      case ok: True
      with True Some have "POST env req s = processBody env b s"
        by (simp add: POST_processBody)
      with True Some ok show ?thesis by (simp add: processBody_missing)
    qed
  qed
qed

text \<open>
  C9, amended, at the empty payload, at \<open>{external_id: 0}\<close>, at \<open>{context: "999"}\<close> and at
  the body \<open>7\<close>.
\<close>

theorem C9_witness:
  "fst (POST exEnv (request exEmpty) exStore) = MissingCorrelationId \<and>
   fst (POST exEnv (request exExternalZero) exStore) = MissingCorrelationId \<and>
   fst (POST exEnv (request exContext999) exStore) \<noteq> MissingCorrelationId \<and>
   fst (POST exEnv (request (JNum 7)) exStore) \<noteq> MissingCorrelationId"
proof -
  have "riderCallId_of exEmpty = None" "runId_of exEmpty = None" "externalId_of exEmpty = None"
    "truthy exEmpty" "typeofObject (Some exEmpty)"
    "riderCallId_of exExternalZero = None" "runId_of exExternalZero = None"
    "externalId_of exExternalZero = None"
    "truthy exExternalZero" "typeofObject (Some exExternalZero)"
    "externalId_of exContext999 = Some (Finite 999)"
    "\<not> typeofObject (Some (JNum 7))"
    by code_simp+
  then show ?thesis
    by (simp add: C9_missing_correlation_id ex_open_request)
qed

section \<open>C10: loose booleans\<close>

text \<open>
  C10, as claimed: one normalization serves the import and the callback, sends \<open>t\<close> to true
  and \<open>f\<close> to false, and sends a number that is not listed to absent. The routes have a
  normalizer each. \<open>parseBooleanLoose\<close> of the import knows \<open>t\<close> and \<open>f\<close>; \<open>asBoolean\<close> of
  the callback does not, and it sends the number 2 to true.
\<close>

theorem C10_counterexample:
  "parseBooleanLoose (Some ''t'') = Some True \<and> asBoolean (Some (JStr ''t'')) = None \<and>
   parseBooleanLoose (Some ''F'') = Some False \<and> asBoolean (Some (JStr ''F'')) = None \<and>
   asBoolean (Some (JNum 2)) = Some True"
  by code_simp

text \<open>
  C10, amended: after trimming and lower-casing, \<open>parseBooleanLoose\<close> of the import route
  sends true, yes, y, 1 and t to true, false, no, n, 0 and f to false, and everything else (the
  empty string and \<open>-\<close> among it) to absent. \<open>asBoolean\<close> of the callback route agrees with it
  on every string that does not trim and lower-case to \<open>t\<close> or \<open>f\<close>; it sends a JSON boolean
  to itself and a JSON number to whether it is not 0.
\<close>

theorem C10_loose_boolean:
  "parseBooleanLoose v =
     (let s = toLowerCase (trim (case v of None \<Rightarrow> [] | Some x \<Rightarrow> x))
      in if s \<in> {''true'', ''yes'', ''y'', ''1'', ''t''} then Some True
         else if s \<in> {''false'', ''no'', ''n'', ''0'', ''f''} then Some False
         else None) \<and>
   (toLowerCase (trim x) \<notin> {''t'', ''f''} \<longrightarrow>
      asBoolean (Some (JStr x)) = parseBooleanLoose (Some x)) \<and>
   asBoolean (Some (JBool p)) = Some p \<and>
   asBoolean (Some (JNum q)) = Some (q \<noteq> 0)"
  by (simp add: parseBooleanLoose_def Let_def)

text \<open>C10, amended, at some spellings.\<close>

theorem C10_witness:
  "parseBooleanLoose (Some '' T '') = Some True \<and> parseBooleanLoose (Some ''-'') = None \<and>
   parseBooleanLoose None = None \<and>
   asBoolean (Some (JStr '' Yes '')) = Some True \<and> asBoolean (Some (JStr ''NO'')) = Some False \<and>
   asBoolean (Some (JStr ''-'')) = None"
proof -
  note t = C10_loose_boolean
  have A: "parseBooleanLoose (Some '' T '') = Some True" "parseBooleanLoose (Some ''-'') = None"
    "parseBooleanLoose None = None" "parseBooleanLoose (Some '' Yes '') = Some True"
    "parseBooleanLoose (Some ''NO'') = Some False"
    by (simp_all add: t[THEN conjunct1] ex_normal_forms toLowerCase_Nil Let_def)
  have "asBoolean (Some (JStr '' Yes '')) = parseBooleanLoose (Some '' Yes '')"
    "asBoolean (Some (JStr ''NO'')) = parseBooleanLoose (Some ''NO'')"
    "asBoolean (Some (JStr ''-'')) = parseBooleanLoose (Some ''-'')"
    using t[of _ "'' Yes ''"] t[of _ "''NO''"] t[of _ "''-''"] by (simp_all add: ex_normal_forms)
  with A show ?thesis by simp
qed


end
